theory Spec2Isabelle
  imports Main "HOL-Library.Sublist"
begin

section \<open>JavaScript values\<close>

text \<open>
  The repository is two JavaScript files: \<^verbatim>\<open>src/whatsapp/bot.js\<close> (class
  \<^verbatim>\<open>WhatsAppBot\<close>) and the entry point (class \<^verbatim>\<open>WhatsAppAISystem\<close>).
  Both drive collaborators whose code is elsewhere (the chat library, the AI agent, the
  formatter, the backend executor), so a collaborator is a value of the model: a record
  whose fields are the outcomes of its methods.

  A JavaScript value is one of the following. Strings are byte lists (the UTF-8 text of
  the source's literals), numbers are the integral ones, and an object is the list of its
  own data properties. \<open>JError m\<close> is an \<^verbatim>\<open>Error\<close> object with message \<open>m\<close>.
\<close>

datatype jsval =
    JUndefined
  | JNull
  | JBool bool
  | JNum int
  | JStr string
  | JObj "(string \<times> jsval) list"
  | JError string

text \<open>What \<^verbatim>\<open>if (v)\<close>, \<^verbatim>\<open>!v\<close> and \<^verbatim>\<open>v || w\<close> test.\<close>

fun truthy :: "jsval \<Rightarrow> bool" where
  "truthy JUndefined = False"
| "truthy JNull = False"
| "truthy (JBool b) = b"
| "truthy (JNum n) = (n \<noteq> 0)"
| "truthy (JStr s) = (s \<noteq> [])"
| "truthy (JObj fs) = True"
| "truthy (JError m) = True"

definition js_or :: "jsval \<Rightarrow> jsval \<Rightarrow> jsval" where
  "js_or a b = (if truthy a then a else b)"

fun nullish :: "jsval \<Rightarrow> bool" where
  "nullish JUndefined = True"
| "nullish JNull = True"
| "nullish v = False"

text \<open>\<^verbatim>\<open>v?.k\<close>: undefined on a nullish value and on a missing property.\<close>

fun opt_get :: "jsval \<Rightarrow> string \<Rightarrow> jsval" where
  "opt_get (JObj fs) k = (case map_of fs k of Some x \<Rightarrow> x | None \<Rightarrow> JUndefined)"
| "opt_get (JError m) k = (if k = ''message'' then JStr m else JUndefined)"
| "opt_get v k = JUndefined"

text \<open>\<^verbatim>\<open>s.includes(sub)\<close> on strings.\<close>

fun js_includes :: "string \<Rightarrow> string \<Rightarrow> bool" where
  "js_includes [] sub = (sub = [])"
| "js_includes (c # cs) sub = (take (length sub) (c # cs) = sub \<or> js_includes cs sub)"

text \<open>The \<^verbatim>\<open>TypeError\<close> the engine throws on a property read of a nullish value or on a
  call of something that is not a function.\<close>

definition TypeError :: jsval where
  "TypeError = JError ''TypeError''"

subsection \<open>The literals of the source\<close>

definition robot :: string where
  "robot = [CHR 0xF0, CHR 0x9F, CHR 0xA4, CHR 0x96]"

definition a_tilde :: string where
  "a_tilde = [CHR 0xC3, CHR 0xA3]"

definition a_acute :: string where
  "a_acute = [CHR 0xC3, CHR 0xA1]"

definition i_acute :: string where
  "i_acute = [CHR 0xC3, CHR 0xAD]"

definition o_acute :: string where
  "o_acute = [CHR 0xC3, CHR 0xB3]"

definition c_cedilla :: string where
  "c_cedilla = [CHR 0xC3, CHR 0xA7]"

definition unsupported_type_text :: string where
  "unsupported_type_text =
     robot @ '' Desculpe, eu s'' @ o_acute @ '' processo mensagens de texto no momento.''"

definition fallback_text :: string where
  "fallback_text =
     robot @ '' Desculpe, n'' @ a_tilde @ ''o consegui processar sua mensagem no momento.''"

definition handler_error_text :: string where
  "handler_error_text =
     robot @ '' Desculpe, ocorreu um erro ao processar sua mensagem. Tente novamente.''"

definition ai_unavailable_text :: string where
  "ai_unavailable_text =
     robot @ '' Sistema de IA n'' @ a_tilde @ ''o est'' @ a_acute @ '' dispon'' @ i_acute
       @ ''vel. Tente novamente em alguns instantes.''"

definition format_error_text :: string where
  "format_error_text =
     robot @ '' Erro na formata'' @ c_cedilla @ a_tilde @ ''o da resposta.''"

definition ai_apology_text :: string where
  "ai_apology_text =
     robot @ '' Desculpe, n'' @ a_tilde @ ''o consegui processar sua solicita'' @ c_cedilla
       @ a_tilde @ ''o. Verifique se sua mensagem est'' @ a_acute
       @ '' clara e tente novamente.''"

definition default_user_name :: string where
  "default_user_name = ''Usu'' @ a_acute @ ''rio''"

definition not_ready_text :: string where
  "not_ready_text = ''WhatsApp Bot n'' @ a_tilde @ ''o est'' @ a_acute @ '' pronto''"

section \<open>Effects\<close>

record contact =
  name :: jsval
  number :: jsval

record userContext = contact +
  timestamp :: string

text \<open>The options object \<^verbatim>\<open>initialize\<close> gives to \<^verbatim>\<open>new Client\<close>; the first two fields are the
  options of \<^verbatim>\<open>new LocalAuth\<close>.\<close>

record client_options =
  auth_clientId :: string
  auth_dataPath :: string
  headless :: bool
  puppeteer_args :: "string list"
  webVersionCache_type :: string
  webVersionCache_remotePath :: string

text \<open>
  Every call that leaves the two files is recorded, in order, in a trace. The trace is
  what the claims about "replies", "calls the AI Agent" and "invokes the transport" read.
  Console output is left out of the trace, but for \<^verbatim>\<open>console.error\<close> in the entry point, whose
  report of a failed start one claim reads; what a log line evaluates and can throw
  (\<^verbatim>\<open>error.stack\<close>, \<^verbatim>\<open>response.substring\<close>, \<^verbatim>\<open>this.client.listenerCount\<close>) is kept. The
  constructors \<^verbatim>\<open>new LocalAuth\<close> and \<^verbatim>\<open>new Client\<close> are calls of the library and can throw, as
  \<^verbatim>\<open>new LocalAuth\<close> does on a client id it refuses; \<^verbatim>\<open>client.on\<close> on a session, \<^verbatim>\<open>setTimeout\<close>
  and \<^verbatim>\<open>clearTimeout\<close> do not throw.
\<close>

datatype effect =
    GetContact
  | GetChat
  | SendStateTyping
  | Reply jsval
  | ProcessMessage string userContext
  | Format jsval
  | ClientSendMessage string string
  | NewLocalAuth string string
  | NewClient client_options
  | ClientInitialize
  | ClientDestroy
  | NewResponseFormatter
  | NewSupabaseExecutor
  | NewMultiAgentSystem
  | TestConnection
  | AppListen string
  | ConsoleError string jsval
  | UnhandledRejection jsval
  | ProcessExit int

text \<open>An awaited call either throws (rejects with) a value, \<open>Inl\<close>, or returns one.
  Its outcome may depend on everything that happened before it, the trace so far.\<close>

type_synonym 'a outcome = "jsval + 'a"

type_synonym 'a ext = "effect list \<Rightarrow> 'a outcome"

text \<open>The state of the runtime: the trace, the armed timers (handle and delay in
  milliseconds), the next timer handle, and what the clock shows
  (\<^verbatim>\<open>new Date().toISOString()\<close>).\<close>

record node =
  trace :: "effect list"
  pending :: "(nat \<times> nat) list"
  fresh :: nat
  clock :: string

text \<open>A computation returns, throws, or ends the process (\<^verbatim>\<open>process.exit\<close>).\<close>

datatype 'a res = Ret 'a | Throw jsval | Exit int

type_synonym ('s, 'a) io = "'s \<Rightarrow> 'a res \<times> 's"

definition ret :: "'a \<Rightarrow> ('s, 'a) io" where
  "ret x = (\<lambda>s. (Ret x, s))"

definition throw :: "jsval \<Rightarrow> ('s, 'a) io" where
  "throw e = (\<lambda>s. (Throw e, s))"

definition io_bind :: "('s, 'a) io \<Rightarrow> ('a \<Rightarrow> ('s, 'b) io) \<Rightarrow> ('s, 'b) io" where
  "io_bind m f = (\<lambda>s. case m s of
       (Ret x, s') \<Rightarrow> f x s'
     | (Throw e, s') \<Rightarrow> (Throw e, s')
     | (Exit c, s') \<Rightarrow> (Exit c, s'))"

text \<open>\<^verbatim>\<open>try { m } catch (e) { h }\<close>: only a thrown value reaches the handler.\<close>

definition try_catch :: "('s, 'a) io \<Rightarrow> (jsval \<Rightarrow> ('s, 'a) io) \<Rightarrow> ('s, 'a) io" where
  "try_catch m h = (\<lambda>s. case m s of
       (Throw e, s') \<Rightarrow> h e s'
     | (Ret x, s') \<Rightarrow> (Ret x, s')
     | (Exit c, s') \<Rightarrow> (Exit c, s'))"

definition call :: "effect \<Rightarrow> 'a ext \<Rightarrow> ('z node_scheme, 'a) io" where
  "call ef f = (\<lambda>s.
     ((case f (trace s) of Inl e \<Rightarrow> Throw e | Inr v \<Rightarrow> Ret v),
      s\<lparr>trace := trace s @ [ef]\<rparr>))"

definition now :: "('z node_scheme, string) io" where
  "now = (\<lambda>s. (Ret (clock s), s))"

text \<open>\<^verbatim>\<open>error.stack\<close>, read in the catch handlers for the log: a \<^verbatim>\<open>TypeError\<close> when the
  caught value is \<^verbatim>\<open>undefined\<close> or \<^verbatim>\<open>null\<close>.\<close>

definition read_stack :: "jsval \<Rightarrow> ('s, unit) io" where
  "read_stack error = (if nullish error then throw TypeError else ret ())"

text \<open>\<^verbatim>\<open>response.substring(0, 100)\<close>, evaluated for the log: only a string has the method.\<close>

definition substring_log :: "jsval \<Rightarrow> ('s, unit) io" where
  "substring_log v = (case v of JStr s \<Rightarrow> ret () | _ \<Rightarrow> throw TypeError)"

section \<open>The collaborators\<close>

record agent =
  processMessage :: "effect list \<Rightarrow> string \<Rightarrow> userContext \<Rightarrow> jsval outcome"
  agent_isReady :: bool

record formatter =
  format :: "effect list \<Rightarrow> jsval \<Rightarrow> jsval outcome"

record chat =
  sendStateTyping :: "unit ext"

record message =
  fromMe :: bool
  mtype :: string
  body :: string
  getContact :: "contact ext"
  getChat :: "chat ext"
  reply :: "effect list \<Rightarrow> jsval \<Rightarrow> unit outcome"

datatype handler =
    OnQr | OnReady | OnAuthenticated | OnLoadingScreen
  | OnMessage | OnDisconnected | OnAuthFailure | OnError

record client =
  options :: client_options
  listeners :: "(string \<times> handler) list"
  client_initialize :: "unit ext"
  client_sendMessage :: "effect list \<Rightarrow> string \<Rightarrow> string \<Rightarrow> unit outcome"
  client_destroy :: "unit ext"

section \<open>The chat bot adapter\<close>

record bot =
  aiAgent :: "agent option"
  responseFormatter :: "formatter option"
  client :: "client option"
  isReady :: bool
  sessionPath :: string
  clientId :: string
  initTimeout :: "nat option"

definition processMessageWithAI ::
  "bot \<Rightarrow> string \<Rightarrow> contact \<Rightarrow> ('z node_scheme, jsval) io" where
  "processMessageWithAI this messageText contact =
     try_catch
       (io_bind now (\<lambda>ts.
          let userContext =
            \<lparr>name = js_or (name contact) (JStr default_user_name),
             number = number contact, timestamp = ts\<rparr>
          in case aiAgent this of
               None \<Rightarrow> ret (JStr ai_unavailable_text)
             | Some ai \<Rightarrow>
                 io_bind (call (ProcessMessage messageText userContext)
                            (\<lambda>tr. processMessage ai tr messageText userContext))
                   (\<lambda>aiResponse.
                      case responseFormatter this of
                        None \<Rightarrow>
                          ret (js_or (opt_get aiResponse ''response'') (JStr format_error_text))
                      | Some fmt \<Rightarrow>
                          io_bind (call (Format aiResponse) (\<lambda>tr. format fmt tr aiResponse))
                            (\<lambda>formattedResponse. ret formattedResponse))))
       (\<lambda>error. io_bind (read_stack error) (\<lambda>_. ret (JStr ai_apology_text)))"

text \<open>\<^verbatim>\<open>handleMessage\<close> is one \<^verbatim>\<open>try\<close> block and its \<^verbatim>\<open>catch\<close> block, named apart here.\<close>

definition handleMessage_try :: "bot \<Rightarrow> message \<Rightarrow> ('z node_scheme, unit) io" where
  "handleMessage_try this message =
     (if fromMe message then ret ()
      else
        io_bind (call GetContact (getContact message)) (\<lambda>contact.
        io_bind (call GetChat (getChat message)) (\<lambda>chat.
          if mtype message \<noteq> ''chat'' then
            call (Reply (JStr unsupported_type_text))
              (\<lambda>tr. reply message tr (JStr unsupported_type_text))
          else
            io_bind (call SendStateTyping (sendStateTyping chat)) (\<lambda>_.
            io_bind (processMessageWithAI this (body message) contact) (\<lambda>response.
              if truthy response then
                io_bind (substring_log response) (\<lambda>_.
                  call (Reply response) (\<lambda>tr. reply message tr response))
              else
                call (Reply (JStr fallback_text))
                  (\<lambda>tr. reply message tr (JStr fallback_text)))))))"

definition handleMessage_catch :: "message \<Rightarrow> jsval \<Rightarrow> ('z node_scheme, unit) io" where
  "handleMessage_catch message error =
     io_bind (read_stack error) (\<lambda>_.
       try_catch
         (call (Reply (JStr handler_error_text))
            (\<lambda>tr. reply message tr (JStr handler_error_text)))
         (\<lambda>replyError. ret ()))"

definition handleMessage :: "bot \<Rightarrow> message \<Rightarrow> ('z node_scheme, unit) io" where
  "handleMessage this message =
     try_catch (handleMessage_try this message) (handleMessage_catch message)"

definition sendMessage :: "bot \<Rightarrow> string \<Rightarrow> string \<Rightarrow> ('z node_scheme, bool) io" where
  "sendMessage this num text =
     try_catch
       (if \<not> isReady this then throw (JError not_ready_text)
        else
          let chatId = (if js_includes num ''@c.us'' then num else num @ ''@c.us'')
          in case client this of
               None \<Rightarrow> throw TypeError
             | Some c \<Rightarrow>
                 io_bind (call (ClientSendMessage chatId text)
                            (\<lambda>tr. client_sendMessage c tr chatId text))
                   (\<lambda>_. ret True))
       (\<lambda>error. ret False)"

subsection \<open>The life cycle of the adapter\<close>

text \<open>\<^verbatim>\<open>process.env\<close> after \<^verbatim>\<open>dotenv.config()\<close>; \<^verbatim>\<open>process.env.K || d\<close> takes the default
  for an unset and for an empty variable.\<close>

type_synonym environment = "string \<rightharpoonup> string"

definition env_set :: "environment \<Rightarrow> string \<Rightarrow> bool" where
  "env_set env k = (case env k of None \<Rightarrow> False | Some v \<Rightarrow> v \<noteq> [])"

definition env_or :: "environment \<Rightarrow> string \<Rightarrow> string \<Rightarrow> string" where
  "env_or env k d = (case env k of None \<Rightarrow> d | Some v \<Rightarrow> if v \<noteq> [] then v else d)"

definition WhatsAppBot :: "environment \<Rightarrow> agent option \<Rightarrow> formatter option \<Rightarrow> bot" where
  "WhatsAppBot env ai fmt =
     \<lparr>aiAgent = ai, responseFormatter = fmt, client = None, isReady = False,
      sessionPath = env_or env ''WHATSAPP_SESSION_PATH'' ''./whatsapp-session'',
      clientId = env_or env ''WHATSAPP_CLIENT_ID'' ''whatsapp-ai-bot'',
      initTimeout = None\<rparr>"

text \<open>The adapter object \<^verbatim>\<open>this\<close> beside the runtime.\<close>

record bstate = node +
  this :: bot

definition get_this :: "('z bstate_scheme, bot) io" where
  "get_this = (\<lambda>s. (Ret (this s), s))"

definition modify_this :: "(bot \<Rightarrow> bot) \<Rightarrow> ('z bstate_scheme, unit) io" where
  "modify_this f = (\<lambda>s. (Ret (), s\<lparr>this := f (this s)\<rparr>))"

definition io_seq :: "('s, 'a) io \<Rightarrow> ('s, 'b) io \<Rightarrow> ('s, 'b) io" where
  "io_seq m k = io_bind m (\<lambda>_. k)"

text \<open>Timers. The only callback ever armed is the fallback of \<^verbatim>\<open>initialize\<close>, so an armed
  timer is its handle and its delay.\<close>

definition setTimeout :: "nat \<Rightarrow> ('z node_scheme, nat) io" where
  "setTimeout ms = (\<lambda>s.
     (Ret (fresh s), s\<lparr>pending := pending s @ [(fresh s, ms)], fresh := Suc (fresh s)\<rparr>))"

definition clearTimeout :: "nat \<Rightarrow> ('z node_scheme, unit) io" where
  "clearTimeout t = (\<lambda>s. (Ret (), s\<lparr>pending := filter (\<lambda>p. fst p \<noteq> t) (pending s)\<rparr>))"

text \<open>The chat library: its two constructors, which return or throw, and the methods of
  the sessions it creates.\<close>

record wwebjs =
  lib_LocalAuth :: "effect list \<Rightarrow> string \<Rightarrow> string \<Rightarrow> unit outcome"
  lib_Client :: "effect list \<Rightarrow> client_options \<Rightarrow> unit outcome"
  lib_initialize :: "unit ext"
  lib_sendMessage :: "effect list \<Rightarrow> string \<Rightarrow> string \<Rightarrow> unit outcome"
  lib_destroy :: "unit ext"

text \<open>\<^verbatim>\<open>new LocalAuth({clientId, dataPath})\<close>.\<close>

definition new_LocalAuth :: "wwebjs \<Rightarrow> string \<Rightarrow> string \<Rightarrow> ('z node_scheme, unit) io" where
  "new_LocalAuth lib cid path = call (NewLocalAuth cid path) (\<lambda>tr. lib_LocalAuth lib tr cid path)"

text \<open>\<^verbatim>\<open>new Client(options)\<close>: when the constructor returns, a session with no listener yet.\<close>

definition new_Client :: "wwebjs \<Rightarrow> client_options \<Rightarrow> ('z node_scheme, client) io" where
  "new_Client lib opts =
     io_bind (call (NewClient opts) (\<lambda>tr. lib_Client lib tr opts)) (\<lambda>_.
       ret \<lparr>options = opts, listeners = [], client_initialize = lib_initialize lib,
            client_sendMessage = lib_sendMessage lib, client_destroy = lib_destroy lib\<rparr>)"

text \<open>\<^verbatim>\<open>this.client.on(ev, cb)\<close> appends a listener; on a null client it is a \<^verbatim>\<open>TypeError\<close>.\<close>

definition client_on :: "string \<Rightarrow> handler \<Rightarrow> ('z bstate_scheme, unit) io" where
  "client_on ev h =
     io_bind get_this (\<lambda>b.
       case client b of
         None \<Rightarrow> throw TypeError
       | Some c \<Rightarrow> modify_this (\<lambda>b. b\<lparr>client := Some (c\<lparr>listeners := listeners c @ [(ev, h)]\<rparr>)\<rparr>))"

definition listenerCount :: "string \<Rightarrow> ('z bstate_scheme, nat) io" where
  "listenerCount ev =
     io_bind get_this (\<lambda>b.
       case client b of
         None \<Rightarrow> throw TypeError
       | Some c \<Rightarrow> ret (length (filter (\<lambda>p. fst p = ev) (listeners c))))"

definition setupEventHandlers :: "('z bstate_scheme, unit) io" where
  "setupEventHandlers =
     io_seq (client_on ''qr'' OnQr)
    (io_seq (client_on ''ready'' OnReady)
    (io_seq (client_on ''authenticated'' OnAuthenticated)
    (io_seq (client_on ''loading_screen'' OnLoadingScreen)
    (io_seq (client_on ''message'' OnMessage)
    (io_seq (client_on ''disconnected'' OnDisconnected)
    (io_seq (client_on ''auth_failure'' OnAuthFailure)
            (client_on ''error'' OnError)))))))"

definition forceReady :: "('z bstate_scheme, unit) io" where
  "forceReady =
     io_seq (modify_this (\<lambda>b. b\<lparr>isReady := True\<rparr>))
    (io_seq (listenerCount ''message'')
    (io_seq (listenerCount ''ready'') (ret ())))"

definition clear_initTimeout :: "('z bstate_scheme, unit) io" where
  "clear_initTimeout =
     io_bind get_this (\<lambda>b.
       case initTimeout b of None \<Rightarrow> ret () | Some t \<Rightarrow> clearTimeout t)"

definition default_puppeteer_args :: "string list" where
  "default_puppeteer_args =
     [''--no-sandbox'', ''--disable-setuid-sandbox'', ''--disable-dev-shm-usage'',
      ''--disable-accelerated-2d-canvas'', ''--no-first-run'', ''--no-zygote'',
      ''--single-process'', ''--disable-gpu'', ''--disable-web-security'',
      ''--disable-features=VizDisplayCompositor'']"

text \<open>The options literal of \<^verbatim>\<open>initialize\<close>, from \<^verbatim>\<open>this.clientId\<close> and \<^verbatim>\<open>this.sessionPath\<close>.\<close>

definition session_options :: "bot \<Rightarrow> client_options" where
  "session_options b =
     \<lparr>auth_clientId = clientId b, auth_dataPath = sessionPath b, headless = True,
      puppeteer_args = default_puppeteer_args, webVersionCache_type = ''remote'',
      webVersionCache_remotePath =
        ''https://raw.githubusercontent.com/wppconnect-team/wa-version/main/html/2.2412.54.html''\<rparr>"

text \<open>\<^verbatim>\<open>this.client = new Client({authStrategy: new LocalAuth({...}), ...})\<close> evaluates the inner
  constructor, then the outer one, then assigns: when either throws, \<^verbatim>\<open>this.client\<close> keeps
  its value, no listener is registered and no timer is armed.\<close>

definition WhatsAppBot_initialize :: "wwebjs \<Rightarrow> ('z bstate_scheme, unit) io" where
  "WhatsAppBot_initialize lib =
     io_seq clear_initTimeout
    (io_bind get_this (\<lambda>b.
     io_bind (new_LocalAuth lib (clientId b) (sessionPath b)) (\<lambda>authStrategy.
     io_bind (new_Client lib (session_options b)) (\<lambda>c.
     io_seq (modify_this (\<lambda>b. b\<lparr>client := Some c\<rparr>))
    (io_seq setupEventHandlers
    (io_bind (setTimeout 45000) (\<lambda>t.
     io_seq (modify_this (\<lambda>b. b\<lparr>initTimeout := Some t\<rparr>))
    (io_bind get_this (\<lambda>b.
       case client b of
         None \<Rightarrow> throw TypeError
       | Some c \<Rightarrow> call ClientInitialize (client_initialize c))))))))))"

text \<open>The callback \<^verbatim>\<open>initialize\<close> hands to \<^verbatim>\<open>setTimeout\<close>.\<close>

definition timeout_callback :: "('z bstate_scheme, unit) io" where
  "timeout_callback =
     io_bind get_this (\<lambda>b. if \<not> isReady b then forceReady else ret ())"

text \<open>A timer fires only while it is armed, and is disarmed by firing.\<close>

definition fire :: "nat \<Rightarrow> ('z bstate_scheme, unit) io" where
  "fire t = (\<lambda>s.
     if t \<in> fst ` set (pending s) then io_seq (clearTimeout t) timeout_callback s
     else (Ret (), s))"

text \<open>The events of the session, with the arguments the library passes.\<close>

datatype event =
    EvQr string
  | EvReady
  | EvAuthenticated
  | EvLoadingScreen nat string
  | EvMessage message
  | EvDisconnected string
  | EvAuthFailure string
  | EvError jsval

fun event_name :: "event \<Rightarrow> string" where
  "event_name (EvQr q) = ''qr''"
| "event_name EvReady = ''ready''"
| "event_name EvAuthenticated = ''authenticated''"
| "event_name (EvLoadingScreen p m) = ''loading_screen''"
| "event_name (EvMessage m) = ''message''"
| "event_name (EvDisconnected r) = ''disconnected''"
| "event_name (EvAuthFailure m) = ''auth_failure''"
| "event_name (EvError e) = ''error''"

text \<open>A promise rejected with nothing to handle it.\<close>

definition unhandled :: "jsval \<Rightarrow> ('z node_scheme, unit) io" where
  "unhandled e = (\<lambda>s. (Ret (), s\<lparr>trace := trace s @ [UnhandledRejection e]\<rparr>))"

text \<open>The eight callbacks of \<^verbatim>\<open>setupEventHandlers\<close>. Four only write to the console. The
  \<^verbatim>\<open>message\<close> callback is an \<^verbatim>\<open>async\<close> function: the emitter gets its promise and goes on, and a
  rejection of \<^verbatim>\<open>handleMessage\<close> stays unhandled.\<close>

fun run_handler :: "handler \<Rightarrow> event \<Rightarrow> ('z bstate_scheme, unit) io" where
  "run_handler OnReady ev =
     io_seq (io_bind get_this (\<lambda>b.
               case initTimeout b of
                 None \<Rightarrow> ret ()
               | Some t \<Rightarrow> io_seq (clearTimeout t) (modify_this (\<lambda>b. b\<lparr>initTimeout := None\<rparr>))))
    (io_seq (modify_this (\<lambda>b. b\<lparr>isReady := True\<rparr>))
    (io_seq (listenerCount ''message'')
    (io_seq (listenerCount ''ready'') (ret ()))))"
| "run_handler OnMessage (EvMessage m) =
     io_bind get_this (\<lambda>b. try_catch (handleMessage b m) unhandled)"
| "run_handler OnDisconnected ev = modify_this (\<lambda>b. b\<lparr>isReady := False\<rparr>)"
| "run_handler h ev = ret ()"

fun run_all :: "handler list \<Rightarrow> event \<Rightarrow> ('z bstate_scheme, unit) io" where
  "run_all [] ev = ret ()"
| "run_all (h # hs) ev = io_seq (run_handler h ev) (run_all hs ev)"

text \<open>\<^verbatim>\<open>client.emit\<close>: the listeners registered under the event's name, in order.\<close>

definition emit :: "event \<Rightarrow> ('z bstate_scheme, unit) io" where
  "emit ev =
     io_bind get_this (\<lambda>b.
       case client b of
         None \<Rightarrow> ret ()
       | Some c \<Rightarrow>
           run_all (map snd (filter (\<lambda>p. fst p = event_name ev) (listeners c))) ev)"

definition WhatsAppBot_destroy :: "('z bstate_scheme, unit) io" where
  "WhatsAppBot_destroy =
     io_seq clear_initTimeout
       (io_bind get_this (\<lambda>b.
          case client b of
            None \<Rightarrow> ret ()
          | Some c \<Rightarrow> call ClientDestroy (client_destroy c)))"

text \<open>Everything that can happen to an adapter: a call of one of its methods, an event of
  its session, a timer running out.\<close>

datatype action =
    Initialize wwebjs
  | Emit event
  | Fire nat
  | Destroy
  | SendMessage string string

fun step :: "action \<Rightarrow> 'z bstate_scheme \<Rightarrow> 'z bstate_scheme" where
  "step (Initialize lib) s = snd (WhatsAppBot_initialize lib s)"
| "step (Emit ev) s = snd (emit ev s)"
| "step (Fire t) s = snd (fire t s)"
| "step Destroy s = snd (WhatsAppBot_destroy s)"
| "step (SendMessage num text) s = snd (sendMessage (this s) num text s)"

fun run :: "action list \<Rightarrow> 'z bstate_scheme \<Rightarrow> 'z bstate_scheme" where
  "run [] s = s"
| "run (a # as) s = run as (step a s)"

section \<open>The process supervisor\<close>

text \<open>
  Modelled from the spec: the classes \<^verbatim>\<open>SupabaseExecutor\<close> and \<^verbatim>\<open>MultiAgentSystem\<close> are not
  among the source files. The health route "aggregates three booleans from the
  sub-components", so the flags \<^verbatim>\<open>isConnected\<close> and \<^verbatim>\<open>isReady\<close> it reads from them are
  booleans (\<open>isConnected\<close> below and \<open>agent_isReady\<close> above).
\<close>

record executor =
  testConnection :: "unit ext"
  isConnected :: bool

record system =
  port :: string
  whatsappBot :: "bot option"
  sys_aiAgent :: "agent option"
  supabaseExecutor :: "executor option"
  sys_responseFormatter :: "formatter option"

text \<open>What the entry point requires and reads from outside: the constructors of the three
  other classes, the chat library, the HTTP listener and the environment.\<close>

record deps =
  new_ResponseFormatter :: "formatter ext"
  new_SupabaseExecutor :: "executor ext"
  new_MultiAgentSystem :: "effect list \<Rightarrow> executor option \<Rightarrow> agent outcome"
  lib :: wwebjs
  app_listen :: "effect list \<Rightarrow> string \<Rightarrow> unit outcome"
  process_env :: environment

text \<open>The process: the runtime, \<^verbatim>\<open>global.systemRunning\<close> and the one \<^verbatim>\<open>system\<close> object.\<close>

record proc = node +
  systemRunning :: bool
  sys :: system

definition WhatsAppAISystem :: "environment \<Rightarrow> system" where
  "WhatsAppAISystem env =
     \<lparr>port = env_or env ''PORT'' ''8080'', whatsappBot = None, sys_aiAgent = None,
      supabaseExecutor = None, sys_responseFormatter = None\<rparr>"

text \<open>The handler of \<^verbatim>\<open>GET /health\<close>: the object given to \<^verbatim>\<open>res.json\<close>.\<close>

definition health :: "system \<Rightarrow> jsval" where
  "health y =
     JObj [(''status'', JStr ''healthy''),
           (''whatsapp'',
              js_or (case whatsappBot y of None \<Rightarrow> JUndefined | Some b \<Rightarrow> JBool (isReady b))
                (JBool False)),
           (''supabase'',
              js_or (case supabaseExecutor y of None \<Rightarrow> JUndefined
                     | Some e \<Rightarrow> JBool (isConnected e))
                (JBool False)),
           (''ai'',
              js_or (case sys_aiAgent y of None \<Rightarrow> JUndefined
                     | Some a \<Rightarrow> JBool (agent_isReady a))
                (JBool False))]"

definition get_sys :: "('z proc_scheme, system) io" where
  "get_sys = (\<lambda>s. (Ret (sys s), s))"

definition modify_sys :: "(system \<Rightarrow> system) \<Rightarrow> ('z proc_scheme, unit) io" where
  "modify_sys f = (\<lambda>s. (Ret (), s\<lparr>sys := f (sys s)\<rparr>))"

definition set_systemRunning :: "bool \<Rightarrow> ('z proc_scheme, unit) io" where
  "set_systemRunning v = (\<lambda>s. (Ret (), s\<lparr>systemRunning := v\<rparr>))"

definition process_exit :: "int \<Rightarrow> ('z node_scheme, 'a) io" where
  "process_exit c = (\<lambda>s. (Exit c, s\<lparr>trace := trace s @ [ProcessExit c]\<rparr>))"

definition console_error :: "string \<Rightarrow> jsval \<Rightarrow> ('z node_scheme, unit) io" where
  "console_error label v = (\<lambda>s. (Ret (), s\<lparr>trace := trace s @ [ConsoleError label v]\<rparr>))"

text \<open>A method of the adapter called through \<^verbatim>\<open>this.whatsappBot\<close>: it runs on the adapter the
  system holds, and what it does to the adapter and to the runtime stays done, also when
  it throws.\<close>

definition on_bot :: "(bstate, 'a) io \<Rightarrow> ('z proc_scheme, 'a) io" where
  "on_bot m = (\<lambda>s.
     case whatsappBot (sys s) of
       None \<Rightarrow> (Throw TypeError, s)
     | Some b \<Rightarrow>
         (case m \<lparr>trace = trace s, pending = pending s, fresh = fresh s, clock = clock s,
                  this = b\<rparr> of
            (r, s') \<Rightarrow>
              (r, s\<lparr>trace := trace s', pending := pending s', fresh := fresh s',
                     clock := clock s',
                     sys := (sys s)\<lparr>whatsappBot := Some (this s')\<rparr>\<rparr>)))"

definition cross_mark :: string where
  "cross_mark = [CHR 0xE2, CHR 0x9D, CHR 0x8C]"

definition init_error_label :: string where
  "init_error_label = cross_mark @ '' Erro ao inicializar sistema:''"

definition missing_vars_prefix :: string where
  "missing_vars_prefix =
     ''Vari'' @ a_acute @ ''veis obrigat'' @ o_acute @ ''rias n'' @ a_tilde
       @ ''o configuradas: ''"

text \<open>\<^verbatim>\<open>xs.join(sep)\<close>.\<close>

fun join :: "string \<Rightarrow> string list \<Rightarrow> string" where
  "join sep [] = []"
| "join sep [x] = x"
| "join sep (x # y # ys) = x @ sep @ join sep (y # ys)"

definition required :: "string list" where
  "required = [''OPENAI_API_KEY'', ''SUPABASE_URL'', ''SUPABASE_KEY'']"

text \<open>\<^verbatim>\<open>initialize\<close> is one \<^verbatim>\<open>try\<close> block and its \<^verbatim>\<open>catch\<close> block, named apart here.\<close>

definition initialize_try :: "deps \<Rightarrow> ('z proc_scheme, unit) io" where
  "initialize_try d =
     (let missing = filter (\<lambda>v. \<not> env_set (process_env d) v) required in
      if length missing > 0 then throw (JError (missing_vars_prefix @ join '', '' missing))
      else
        io_bind (call NewResponseFormatter (new_ResponseFormatter d)) (\<lambda>f.
        io_seq (modify_sys (\<lambda>y. y\<lparr>sys_responseFormatter := Some f\<rparr>))
       (io_bind (call NewSupabaseExecutor (new_SupabaseExecutor d)) (\<lambda>e.
        io_seq (modify_sys (\<lambda>y. y\<lparr>supabaseExecutor := Some e\<rparr>))
       (io_bind get_sys (\<lambda>y.
        io_bind (call NewMultiAgentSystem
                   (\<lambda>tr. new_MultiAgentSystem d tr (supabaseExecutor y))) (\<lambda>a.
        io_seq (modify_sys (\<lambda>y. y\<lparr>sys_aiAgent := Some a\<rparr>))
       (io_seq (modify_sys (\<lambda>y. y\<lparr>whatsappBot :=
                  Some (WhatsAppBot (process_env d) (sys_aiAgent y) (sys_responseFormatter y))\<rparr>))
       (io_bind get_sys (\<lambda>y.
        io_seq (case supabaseExecutor y of
                  None \<Rightarrow> throw TypeError
                | Some x \<Rightarrow> call TestConnection (testConnection x))
       (io_seq (on_bot (WhatsAppBot_initialize (lib d)))
       (io_bind get_sys (\<lambda>y. call (AppListen (port y))
                                 (\<lambda>tr. app_listen d tr (port y)))))))))))))))"

definition initialize_catch :: "jsval \<Rightarrow> ('z proc_scheme, unit) io" where
  "initialize_catch error =
     io_seq (console_error init_error_label error)
    (io_seq (read_stack error)
    (io_seq (set_systemRunning False)
            (process_exit 1)))"

definition WhatsAppAISystem_initialize :: "deps \<Rightarrow> ('z proc_scheme, unit) io" where
  "WhatsAppAISystem_initialize d = try_catch (initialize_try d) initialize_catch"

definition shutdown :: "('z proc_scheme, unit) io" where
  "shutdown =
     io_seq
       (try_catch
          (io_bind get_sys (\<lambda>y.
             io_seq (case whatsappBot y of
                       None \<Rightarrow> ret ()
                     | Some b \<Rightarrow> on_bot WhatsAppBot_destroy)
                    (set_systemRunning False)))
          (\<lambda>error. ret ()))
       (process_exit 0)"

text \<open>The module body: the guard, the construction of the system and the start of
  \<^verbatim>\<open>initialize\<close>, whose rejection goes to \<^verbatim>\<open>.catch(console.error)\<close>.\<close>

definition main :: "deps \<Rightarrow> ('z proc_scheme, unit) io" where
  "main d = (\<lambda>s.
     if systemRunning s then process_exit 0 s
     else
       io_seq (set_systemRunning True)
      (io_seq (modify_sys (\<lambda>_. WhatsAppAISystem (process_env d)))
              (try_catch (WhatsAppAISystem_initialize d)
                 (\<lambda>error. console_error [] error))) s)"

section \<open>The scenario of the specification\<close>

text \<open>The objects of the scenarios: a contact that is not the bot, its chat, the inbound
  text "Hi", an AI agent that answers \<^verbatim>\<open>{response: "Hello!"}\<close>, a formatter that returns the text
  of what it is given, a transport on which every call succeeds, and a runtime at rest.\<close>

definition a_contact :: contact where
  "a_contact = \<lparr>name = JStr ''Ana'', number = JStr ''5511999990000''\<rparr>"

definition a_chat :: chat where
  "a_chat = \<lparr>sendStateTyping = (\<lambda>tr. Inr ())\<rparr>"

definition hi_message :: message where
  "hi_message =
     \<lparr>fromMe = False, mtype = ''chat'', body = ''Hi'',
      getContact = (\<lambda>tr. Inr a_contact), getChat = (\<lambda>tr. Inr a_chat),
      reply = (\<lambda>tr v. Inr ())\<rparr>"

definition hello_agent :: agent where
  "hello_agent =
     \<lparr>processMessage = (\<lambda>tr t c. Inr (JObj [(''response'', JStr ''Hello!'')])),
      agent_isReady = True\<rparr>"

definition text_formatter :: formatter where
  "text_formatter = \<lparr>format = (\<lambda>tr v. Inr (opt_get v ''response''))\<rparr>"

definition good_lib :: wwebjs where
  "good_lib =
     \<lparr>lib_LocalAuth = (\<lambda>tr cid path. Inr ()), lib_Client = (\<lambda>tr opts. Inr ()),
      lib_initialize = (\<lambda>tr. Inr ()), lib_sendMessage = (\<lambda>tr c m. Inr ()),
      lib_destroy = (\<lambda>tr. Inr ())\<rparr>"

definition a_bot :: bot where
  "a_bot = WhatsAppBot Map.empty (Some hello_agent) (Some text_formatter)"

definition at_rest :: node where
  "at_rest = \<lparr>trace = [], pending = [], fresh = 0, clock = ''2024-01-01T00:00:00.000Z''\<rparr>"

definition bot_at_rest :: "bot \<Rightarrow> bstate" where
  "bot_at_rest b =
     \<lparr>trace = [], pending = [], fresh = 0, clock = ''2024-01-01T00:00:00.000Z'', this = b\<rparr>"

text \<open>Inputs on which a lookup or the AI agent fails: a message whose contact lookup is
  rejected with an \<^verbatim>\<open>Error\<close>, an image message, and an AI agent whose promise is rejected
  with no reason (\<^verbatim>\<open>undefined\<close>).\<close>

definition lost_contact :: "message \<Rightarrow> message" where
  "lost_contact m = m\<lparr>getContact := (\<lambda>tr. Inl (JError ''Evaluation failed''))\<rparr>"

definition image_message :: message where
  "image_message = hi_message\<lparr>mtype := ''image'', body := []\<rparr>"

definition rejecting_agent :: agent where
  "rejecting_agent = \<lparr>processMessage = (\<lambda>tr t c. Inl JUndefined), agent_isReady = True\<rparr>"

text \<open>The process at its start: an environment with the three required variables, a
  backend whose connectivity check succeeds and one whose check is rejected with no reason
  (\<^verbatim>\<open>undefined\<close>), and the constructors of the other classes.\<close>

definition good_executor :: executor where
  "good_executor = \<lparr>testConnection = (\<lambda>tr. Inr ()), isConnected = True\<rparr>"

definition rejecting_executor :: executor where
  "rejecting_executor = \<lparr>testConnection = (\<lambda>tr. Inl JUndefined), isConnected = False\<rparr>"

definition full_env :: environment where
  "full_env = map_of [(''OPENAI_API_KEY'', ''sk-test''),
                      (''SUPABASE_URL'', ''https://example.supabase.co''),
                      (''SUPABASE_KEY'', ''service-key'')]"

definition good_deps :: deps where
  "good_deps =
     \<lparr>new_ResponseFormatter = (\<lambda>tr. Inr text_formatter),
      new_SupabaseExecutor = (\<lambda>tr. Inr good_executor),
      new_MultiAgentSystem = (\<lambda>tr e. Inr hello_agent),
      lib = good_lib,
      app_listen = (\<lambda>tr p. Inr ()),
      process_env = full_env\<rparr>"

definition broken_deps :: deps where
  "broken_deps = good_deps\<lparr>new_SupabaseExecutor := (\<lambda>tr. Inr rejecting_executor)\<rparr>"

definition boot :: proc where
  "boot =
     \<lparr>trace = [], pending = [], fresh = 0, clock = ''2024-01-01T00:00:00.000Z'',
      systemRunning = False, sys = WhatsAppAISystem Map.empty\<rparr>"


definition ready_state :: bstate where
  "ready_state = run [Initialize good_lib, Emit EvReady] (bot_at_rest a_bot)"

section \<open>Reachable states of the adapter\<close>

text \<open>What the constructor leaves: no session, not ready, no timer; and no timer is armed
  in the runtime, the adapter's being the only one there is.\<close>

definition constructed :: "'z bstate_scheme \<Rightarrow> bool" where
  "constructed s \<longleftrightarrow>
     client (this s) = None \<and> \<not> isReady (this s) \<and> initTimeout (this s) = None
     \<and> pending s = []"

text \<open>The listeners \<^verbatim>\<open>setupEventHandlers\<close> registers, in the order of its eight calls of
  \<^verbatim>\<open>this.client.on\<close>.\<close>

definition registered_listeners :: "(string \<times> handler) list" where
  "registered_listeners =
     [(''qr'', OnQr), (''ready'', OnReady), (''authenticated'', OnAuthenticated),
      (''loading_screen'', OnLoadingScreen), (''message'', OnMessage),
      (''disconnected'', OnDisconnected), (''auth_failure'', OnAuthFailure),
      (''error'', OnError)]"

text \<open>The states an adapter can be in: without a session it is not ready and no timer is
  armed; a session carries exactly the registered listeners.\<close>

definition wired :: "'z bstate_scheme \<Rightarrow> bool" where
  "wired s =
     (case client (this s) of
        None \<Rightarrow> \<not> isReady (this s) \<and> pending s = []
      | Some c \<Rightarrow> listeners c = registered_listeners)"

text \<open>A reply inside the \<^verbatim>\<open>try\<close> block of \<^verbatim>\<open>handleMessage\<close>, with the \<^verbatim>\<open>catch\<close> block behind it.\<close>

definition reply_step :: "message \<Rightarrow> jsval \<Rightarrow> ('z node_scheme, unit) io" where
  "reply_step m v = try_catch (call (Reply v) (\<lambda>tr. reply m tr v)) (handleMessage_catch m)"

text \<open>What \<^verbatim>\<open>if (this.initTimeout) clearTimeout(this.initTimeout)\<close> leaves armed.\<close>

definition disarm :: "nat option \<Rightarrow> (nat \<times> nat) list \<Rightarrow> (nat \<times> nat) list" where
  "disarm h ps = (case h of None \<Rightarrow> ps | Some t \<Rightarrow> filter (\<lambda>p. fst p \<noteq> t) ps)"

text \<open>The session \<^verbatim>\<open>initialize\<close> creates for an adapter, once its listeners are registered.\<close>

definition session :: "wwebjs \<Rightarrow> bot \<Rightarrow> client" where
  "session l b =
     \<lparr>options = session_options b, listeners = registered_listeners,
      client_initialize = lib_initialize l, client_sendMessage = lib_sendMessage l,
      client_destroy = lib_destroy l\<rparr>"

text \<open>Both constructors of \<^verbatim>\<open>initialize\<close> return: \<^verbatim>\<open>new LocalAuth\<close> on the adapter's client id and
  session path, then \<^verbatim>\<open>new Client\<close> on the options.\<close>

definition session_created :: "wwebjs \<Rightarrow> 'z bstate_scheme \<Rightarrow> bool" where
  "session_created l s \<longleftrightarrow>
     lib_LocalAuth l (trace s) (clientId (this s)) (sessionPath (this s)) = Inr ()
     \<and> lib_Client l (trace s @ [NewLocalAuth (clientId (this s)) (sessionPath (this s))])
           (session_options (this s)) = Inr ()"

text \<open>A library that refuses the client id, as \<^verbatim>\<open>new LocalAuth\<close> does for an id with a
  character other than a letter, a digit, \<^verbatim>\<open>_\<close> or \<^verbatim>\<open>-\<close>.\<close>

definition refusing_lib :: wwebjs where
  "refusing_lib = good_lib\<lparr>lib_LocalAuth := (\<lambda>tr cid path. Inl (JError ''Invalid clientId''))\<rparr>"

text \<open>A computation that changes nothing of the state but the trace.\<close>

definition frames :: "('z node_scheme, 'a) io \<Rightarrow> bool" where
  "frames m \<longleftrightarrow> (\<forall>s. \<exists>tr. snd (m s) = s\<lparr>trace := tr\<rparr>)"

section \<open>Running the combinators\<close>

lemma ret_run [simp]: "ret x s = (Ret x, s)"
  by (simp add: ret_def)

lemma throw_run [simp]: "throw e s = (Throw e, s)"
  by (simp add: throw_def)

lemma io_bind_run:
  "io_bind m f s =
     (case m s of (Ret x, s') \<Rightarrow> f x s' | (Throw e, s') \<Rightarrow> (Throw e, s')
      | (Exit c, s') \<Rightarrow> (Exit c, s'))"
  by (simp add: io_bind_def)

lemma io_bind_Ret [simp]: "m s = (Ret x, s') \<Longrightarrow> io_bind m f s = f x s'"
  by (simp add: io_bind_def)

lemma io_bind_Throw [simp]: "m s = (Throw e, s') \<Longrightarrow> io_bind m f s = (Throw e, s')"
  by (simp add: io_bind_def)

lemma io_bind_Exit [simp]: "m s = (Exit c, s') \<Longrightarrow> io_bind m f s = (Exit c, s')"
  by (simp add: io_bind_def)

lemma io_seq_Ret [simp]: "m s = (Ret x, s') \<Longrightarrow> io_seq m k s = k s'"
  by (simp add: io_seq_def)

lemma io_seq_Throw [simp]: "m s = (Throw e, s') \<Longrightarrow> io_seq m k s = (Throw e, s')"
  by (simp add: io_seq_def)

lemma io_seq_Exit [simp]: "m s = (Exit c, s') \<Longrightarrow> io_seq m k s = (Exit c, s')"
  by (simp add: io_seq_def)

lemma try_catch_Ret [simp]: "m s = (Ret x, s') \<Longrightarrow> try_catch m h s = (Ret x, s')"
  by (simp add: try_catch_def)

lemma try_catch_Throw [simp]: "m s = (Throw e, s') \<Longrightarrow> try_catch m h s = h e s'"
  by (simp add: try_catch_def)

lemma try_catch_Exit [simp]: "m s = (Exit c, s') \<Longrightarrow> try_catch m h s = (Exit c, s')"
  by (simp add: try_catch_def)

lemma call_Inr [simp]:
  "f (trace s) = Inr v \<Longrightarrow> call ef f s = (Ret v, s\<lparr>trace := trace s @ [ef]\<rparr>)"
  by (simp add: call_def)

lemma call_Inl [simp]:
  "f (trace s) = Inl e \<Longrightarrow> call ef f s = (Throw e, s\<lparr>trace := trace s @ [ef]\<rparr>)"
  by (simp add: call_def)

lemma now_run [simp]: "now s = (Ret (clock s), s)"
  by (simp add: now_def)

lemma read_stack_run [simp]:
  "read_stack e s = (if nullish e then (Throw TypeError, s) else (Ret (), s))"
  by (simp add: read_stack_def)

section \<open>Running the life cycle\<close>

lemma get_this_run [simp]: "get_this s = (Ret (this s), s)"
  by (simp add: get_this_def)

lemma modify_this_run [simp]: "modify_this f s = (Ret (), s\<lparr>this := f (this s)\<rparr>)"
  by (simp add: modify_this_def)

lemma setTimeout_run [simp]:
  "setTimeout ms s =
     (Ret (fresh s), s\<lparr>pending := pending s @ [(fresh s, ms)], fresh := Suc (fresh s)\<rparr>)"
  by (simp add: setTimeout_def)

lemma clearTimeout_run [simp]:
  "clearTimeout t s = (Ret (), s\<lparr>pending := filter (\<lambda>p. fst p \<noteq> t) (pending s)\<rparr>)"
  by (simp add: clearTimeout_def)

lemma clear_initTimeout_run [simp]:
  "clear_initTimeout s = (Ret (), s\<lparr>pending := disarm (initTimeout (this s)) (pending s)\<rparr>)"
  by (simp add: clear_initTimeout_def disarm_def split: option.splits)

lemma client_on_run [simp]:
  "client (this s) = Some c \<Longrightarrow>
   client_on ev h s =
     (Ret (), s\<lparr>this := (this s)\<lparr>client := Some (c\<lparr>listeners := listeners c @ [(ev, h)]\<rparr>)\<rparr>\<rparr>)"
  by (simp add: client_on_def)

lemma client_on_null [simp]:
  "client (this s) = None \<Longrightarrow> client_on ev h s = (Throw TypeError, s)"
  by (simp add: client_on_def)

lemma setupEventHandlers_run:
  "client (this s) = Some c \<Longrightarrow>
   setupEventHandlers s =
     (Ret (), s\<lparr>this := (this s)\<lparr>client :=
        Some (c\<lparr>listeners := listeners c @ registered_listeners\<rparr>)\<rparr>\<rparr>)"
  by (simp add: setupEventHandlers_def registered_listeners_def)

lemma setupEventHandlers_null:
  "client (this s) = None \<Longrightarrow> setupEventHandlers s = (Throw TypeError, s)"
  by (simp add: setupEventHandlers_def)

lemma initialize_run:
  assumes "session_created l s"
  shows "WhatsAppBot_initialize l s =
     ((case lib_initialize l
              (trace s @ [NewLocalAuth (clientId (this s)) (sessionPath (this s)),
                          NewClient (session_options (this s))]) of
         Inl e \<Rightarrow> Throw e | Inr v \<Rightarrow> Ret v),
      s\<lparr>trace := trace s @ [NewLocalAuth (clientId (this s)) (sessionPath (this s)),
                              NewClient (session_options (this s)), ClientInitialize],
        pending := disarm (initTimeout (this s)) (pending s) @ [(fresh s, 45000)],
        fresh := Suc (fresh s),
        this := (this s)\<lparr>client := Some (session l (this s)), initTimeout := Some (fresh s)\<rparr>\<rparr>)"
  using assms
  by (simp add: WhatsAppBot_initialize_def session_created_def new_LocalAuth_def new_Client_def
      setupEventHandlers_run call_def session_def)

lemma initialize_throws:
  assumes "\<not> session_created l s"
  shows "\<exists>e tr. WhatsAppBot_initialize l s =
     (Throw e, s\<lparr>pending := disarm (initTimeout (this s)) (pending s), trace := tr\<rparr>)"
proof (cases "lib_LocalAuth l (trace s) (clientId (this s)) (sessionPath (this s))")
  case (Inl e)
  then have "WhatsAppBot_initialize l s =
     (Throw e, s\<lparr>pending := disarm (initTimeout (this s)) (pending s),
                trace := trace s @ [NewLocalAuth (clientId (this s)) (sessionPath (this s))]\<rparr>)"
    by (simp add: WhatsAppBot_initialize_def new_LocalAuth_def)
  then show ?thesis by blast
next
  case (Inr u)
  with assms obtain e where
    "lib_Client l (trace s @ [NewLocalAuth (clientId (this s)) (sessionPath (this s))])
       (session_options (this s)) = Inl e"
    by (cases "lib_Client l (trace s @ [NewLocalAuth (clientId (this s)) (sessionPath (this s))])
       (session_options (this s))") (simp_all add: session_created_def)
  with Inr have "WhatsAppBot_initialize l s =
     (Throw e, s\<lparr>pending := disarm (initTimeout (this s)) (pending s),
                trace := trace s @ [NewLocalAuth (clientId (this s)) (sessionPath (this s)),
                                    NewClient (session_options (this s))]\<rparr>)"
    by (simp add: WhatsAppBot_initialize_def new_LocalAuth_def new_Client_def)
  then show ?thesis by blast
qed

lemma initialize_state:
  "\<exists>tr. snd (WhatsAppBot_initialize l s) =
     (if session_created l s
      then s\<lparr>trace := tr,
             pending := disarm (initTimeout (this s)) (pending s) @ [(fresh s, 45000)],
             fresh := Suc (fresh s),
             this := (this s)\<lparr>client := Some (session l (this s)),
                                initTimeout := Some (fresh s)\<rparr>\<rparr>
      else s\<lparr>pending := disarm (initTimeout (this s)) (pending s), trace := tr\<rparr>)"
proof (cases "session_created l s")
  case True
  then have "snd (WhatsAppBot_initialize l s) =
     (if session_created l s
      then s\<lparr>trace := trace s @ [NewLocalAuth (clientId (this s)) (sessionPath (this s)),
                                   NewClient (session_options (this s)), ClientInitialize],
             pending := disarm (initTimeout (this s)) (pending s) @ [(fresh s, 45000)],
             fresh := Suc (fresh s),
             this := (this s)\<lparr>client := Some (session l (this s)),
                                initTimeout := Some (fresh s)\<rparr>\<rparr>
      else s\<lparr>pending := disarm (initTimeout (this s)) (pending s),
             trace := trace s @ [NewLocalAuth (clientId (this s)) (sessionPath (this s)),
                                 NewClient (session_options (this s)), ClientInitialize]\<rparr>)"
    by (simp add: initialize_run)
  then show ?thesis ..
next
  case False
  from initialize_throws [OF False] obtain e tr where
    "WhatsAppBot_initialize l s =
       (Throw e, s\<lparr>pending := disarm (initTimeout (this s)) (pending s), trace := tr\<rparr>)"
    by blast
  with False have "snd (WhatsAppBot_initialize l s) =
     (if session_created l s
      then s\<lparr>trace := tr,
             pending := disarm (initTimeout (this s)) (pending s) @ [(fresh s, 45000)],
             fresh := Suc (fresh s),
             this := (this s)\<lparr>client := Some (session l (this s)),
                                initTimeout := Some (fresh s)\<rparr>\<rparr>
      else s\<lparr>pending := disarm (initTimeout (this s)) (pending s), trace := tr\<rparr>)"
    by simp
  then show ?thesis ..
qed

lemma listenerCount_run [simp]:
  "client (this s) = Some c \<Longrightarrow>
   listenerCount ev s = (Ret (length (filter (\<lambda>p. fst p = ev) (listeners c))), s)"
  by (simp add: listenerCount_def)

lemma listenerCount_null [simp]:
  "client (this s) = None \<Longrightarrow> listenerCount ev s = (Throw TypeError, s)"
  by (simp add: listenerCount_def)

lemma forceReady_state: "snd (forceReady s) = s\<lparr>this := (this s)\<lparr>isReady := True\<rparr>\<rparr>"
  by (cases "client (this s)") (simp_all add: forceReady_def)

lemma timeout_callback_ready: "isReady (this (snd (timeout_callback s)))"
  by (simp add: timeout_callback_def forceReady_state)

lemma timeout_callback_state:
  "snd (timeout_callback s) = s\<lparr>this := (this s)\<lparr>isReady := True\<rparr>\<rparr>"
  by (simp add: timeout_callback_def forceReady_state)

lemma fire_state:
  "snd (fire t s) =
     (if t \<in> fst ` set (pending s)
      then s\<lparr>pending := filter (\<lambda>p. fst p \<noteq> t) (pending s),
             this := (this s)\<lparr>isReady := True\<rparr>\<rparr>
      else s)"
  by (simp add: fire_def timeout_callback_state)

lemma on_ready_state:
  "snd (run_handler OnReady ev s) =
     s\<lparr>pending := disarm (initTimeout (this s)) (pending s),
       this := (this s)\<lparr>initTimeout := None, isReady := True\<rparr>\<rparr>"
  by (cases "client (this s)"; cases "initTimeout (this s)") (simp_all add: disarm_def)

lemma frames_ret: "frames (ret x)"
  unfolding frames_def
proof
  fix s :: "'a node_scheme"
  have "snd (ret x s) = s\<lparr>trace := trace s\<rparr>" by simp
  then show "\<exists>tr. snd (ret x s) = s\<lparr>trace := tr\<rparr>" ..
qed

lemma frames_throw: "frames (throw e)"
  unfolding frames_def
proof
  fix s :: "'a node_scheme"
  have "snd (throw e s) = s\<lparr>trace := trace s\<rparr>" by simp
  then show "\<exists>tr. snd (throw e s) = s\<lparr>trace := tr\<rparr>" ..
qed

lemma frames_now: "frames now"
  unfolding frames_def
proof
  fix s :: "'a node_scheme"
  have "snd (now s) = s\<lparr>trace := trace s\<rparr>" by simp
  then show "\<exists>tr. snd (now s) = s\<lparr>trace := tr\<rparr>" ..
qed

lemma frames_unhandled: "frames (unhandled e)"
  unfolding frames_def by (auto simp: unhandled_def)

lemma frames_call: "frames (call ef f)"
  unfolding frames_def by (auto simp: call_def)

lemma frames_bind:
  assumes "frames m" and "\<And>x. frames (f x)"
  shows "frames (io_bind m f)"
  unfolding frames_def
proof
  fix s
  from assms(1) obtain tr where m: "snd (m s) = s\<lparr>trace := tr\<rparr>"
    unfolding frames_def by blast
  show "\<exists>tr. snd (io_bind m f s) = s\<lparr>trace := tr\<rparr>"
  proof (cases "m s")
    case (Pair r s')
    with m have s': "s' = s\<lparr>trace := tr\<rparr>" by simp
    show ?thesis
    proof (cases r)
      case (Ret x)
      from assms(2) [of x] obtain tr' where "snd (f x s') = s'\<lparr>trace := tr'\<rparr>"
        unfolding frames_def by blast
      with Pair Ret s' have "snd (io_bind m f s) = s\<lparr>trace := tr'\<rparr>" by simp
      then show ?thesis ..
    next
      case (Throw e)
      with Pair s' have "snd (io_bind m f s) = s\<lparr>trace := tr\<rparr>" by simp
      then show ?thesis ..
    next
      case (Exit c)
      with Pair s' have "snd (io_bind m f s) = s\<lparr>trace := tr\<rparr>" by simp
      then show ?thesis ..
    qed
  qed
qed

lemma frames_try_catch:
  assumes "frames m" and "\<And>e. frames (h e)"
  shows "frames (try_catch m h)"
  unfolding frames_def
proof
  fix s
  from assms(1) obtain tr where m: "snd (m s) = s\<lparr>trace := tr\<rparr>"
    unfolding frames_def by blast
  show "\<exists>tr. snd (try_catch m h s) = s\<lparr>trace := tr\<rparr>"
  proof (cases "m s")
    case (Pair r s')
    with m have s': "s' = s\<lparr>trace := tr\<rparr>" by simp
    show ?thesis
    proof (cases r)
      case (Throw e)
      from assms(2) [of e] obtain tr' where "snd (h e s') = s'\<lparr>trace := tr'\<rparr>"
        unfolding frames_def by blast
      with Pair Throw s' have "snd (try_catch m h s) = s\<lparr>trace := tr'\<rparr>" by simp
      then show ?thesis ..
    next
      case (Ret x)
      with Pair s' have "snd (try_catch m h s) = s\<lparr>trace := tr\<rparr>" by simp
      then show ?thesis ..
    next
      case (Exit c)
      with Pair s' have "snd (try_catch m h s) = s\<lparr>trace := tr\<rparr>" by simp
      then show ?thesis ..
    qed
  qed
qed

lemma frames_if: "frames a \<Longrightarrow> frames b \<Longrightarrow> frames (if c then a else b)"
  by simp

lemma frames_case_option:
  "frames a \<Longrightarrow> (\<And>y. frames (f y)) \<Longrightarrow> frames (case x of None \<Rightarrow> a | Some y \<Rightarrow> f y)"
  by (cases x) simp_all

lemma frames_read_stack: "frames (read_stack e)"
  by (simp add: read_stack_def frames_ret frames_throw)

lemma frames_substring_log: "frames (substring_log v)"
  by (cases v) (simp_all add: substring_log_def frames_ret frames_throw)

lemmas frames_intros =
  frames_ret frames_throw frames_now frames_call frames_bind frames_try_catch frames_if
  frames_case_option frames_read_stack frames_substring_log

lemma frames_processMessageWithAI: "frames (processMessageWithAI b t c)"
  unfolding processMessageWithAI_def Let_def by (intro frames_intros)

lemma frames_handleMessage: "frames (handleMessage b m)"
  unfolding handleMessage_def handleMessage_try_def handleMessage_catch_def
  by (intro frames_intros frames_processMessageWithAI)

lemma frames_sendMessage: "frames (sendMessage b n t)"
  unfolding sendMessage_def Let_def by (intro frames_intros)

lemma io_seq_ret_state: "snd (io_seq m (ret x) s) = snd (m s)"
proof (cases "m s")
  case (Pair r s')
  then show ?thesis by (cases r) simp_all
qed

lemma frames_state: "frames m \<Longrightarrow> \<exists>tr. snd (m s) = s\<lparr>trace := tr\<rparr>"
  unfolding frames_def by blast

lemma emit_null: "client (this s) = None \<Longrightarrow> emit ev s = (Ret (), s)"
  by (simp add: emit_def)

lemma emit_state:
  assumes "client (this s) = Some c" and "listeners c = registered_listeners"
  shows "snd (emit ev s) =
     (case ev of
        EvReady \<Rightarrow> snd (run_handler OnReady ev s)
      | EvMessage m \<Rightarrow> snd (try_catch (handleMessage (this s) m) unhandled s)
      | EvDisconnected r \<Rightarrow> s\<lparr>this := (this s)\<lparr>isReady := False\<rparr>\<rparr>
      | _ \<Rightarrow> s)"
  using assms
  by (cases ev) (simp_all add: emit_def registered_listeners_def io_seq_ret_state del: run_handler.simps(1))

lemma handleMessage_state: "\<exists>tr. snd (handleMessage b m s) = s\<lparr>trace := tr\<rparr>"
  by (rule frames_state [OF frames_handleMessage])

lemma message_listener_state:
  "\<exists>tr. snd (try_catch (handleMessage b m) unhandled s) = s\<lparr>trace := tr\<rparr>"
  by (rule frames_state [OF frames_try_catch [OF frames_handleMessage frames_unhandled]])

lemma sendMessage_state: "\<exists>tr. snd (sendMessage b n t s) = s\<lparr>trace := tr\<rparr>"
  by (rule frames_state [OF frames_sendMessage])

lemma destroy_state:
  "\<exists>tr. snd (WhatsAppBot_destroy s) =
     s\<lparr>pending := disarm (initTimeout (this s)) (pending s), trace := tr\<rparr>"
proof (cases "client (this s)")
  case None
  then have "snd (WhatsAppBot_destroy s) =
     s\<lparr>pending := disarm (initTimeout (this s)) (pending s), trace := trace s\<rparr>"
    by (simp add: WhatsAppBot_destroy_def)
  then show ?thesis ..
next
  case (Some c)
  then have "snd (WhatsAppBot_destroy s) =
     s\<lparr>pending := disarm (initTimeout (this s)) (pending s),
       trace := trace s @ [ClientDestroy]\<rparr>"
    by (simp add: WhatsAppBot_destroy_def call_def)
  then show ?thesis ..
qed

lemma disarm_Nil [simp]: "disarm h [] = []"
  by (simp add: disarm_def split: option.splits)

lemma wired_constructed: "constructed s \<Longrightarrow> wired s"
  by (simp add: constructed_def wired_def)

lemma wired_step: "wired s \<Longrightarrow> wired (step a s)"
proof (cases a)
  case (Initialize l)
  assume w: "wired s"
  obtain tr where "snd (WhatsAppBot_initialize l s) =
     (if session_created l s
      then s\<lparr>trace := tr,
             pending := disarm (initTimeout (this s)) (pending s) @ [(fresh s, 45000)],
             fresh := Suc (fresh s),
             this := (this s)\<lparr>client := Some (session l (this s)),
                                initTimeout := Some (fresh s)\<rparr>\<rparr>
      else s\<lparr>pending := disarm (initTimeout (this s)) (pending s), trace := tr\<rparr>)"
    using initialize_state by blast
  with w Initialize show ?thesis
    by (cases "client (this s)") (simp_all add: wired_def session_def)
next
  case (Emit ev)
  assume w: "wired s"
  show ?thesis
  proof (cases "client (this s)")
    case None
    with w Emit show ?thesis by (simp add: emit_null)
  next
    case (Some c)
    with w have l: "listeners c = registered_listeners" by (simp add: wired_def)
    show ?thesis
    proof (cases ev)
      case (EvMessage m)
      obtain tr where
        "snd (try_catch (handleMessage (this s) m) unhandled s) = s\<lparr>trace := tr\<rparr>"
        using message_listener_state by blast
      with w Emit EvMessage Some l show ?thesis by (simp add: emit_state wired_def)
    qed (use w Emit Some l in \<open>simp_all add: emit_state on_ready_state wired_def del: run_handler.simps(1)\<close>)
  qed
next
  case (Fire t)
  assume "wired s"
  with Fire show ?thesis
    by (cases "client (this s)") (auto simp: fire_state wired_def)
next
  case Destroy
  assume w: "wired s"
  obtain tr where "snd (WhatsAppBot_destroy s) =
     s\<lparr>pending := disarm (initTimeout (this s)) (pending s), trace := tr\<rparr>"
    using destroy_state by blast
  with w Destroy show ?thesis
    by (cases "client (this s)") (simp_all add: wired_def)
next
  case (SendMessage n t)
  assume w: "wired s"
  obtain tr where "snd (sendMessage (this s) n t s) = s\<lparr>trace := tr\<rparr>"
    using sendMessage_state by blast
  with w SendMessage show ?thesis
    by (cases "client (this s)") (simp_all add: wired_def)
qed

lemma wired_run: "wired s \<Longrightarrow> wired (run as s)"
  by (induction as arbitrary: s) (simp_all add: wired_step)


section \<open>Substrings\<close>

lemma prefix_iff_take: "prefix sub xs \<longleftrightarrow> take (length sub) xs = sub"
proof
  assume "prefix sub xs"
  then obtain zs where "xs = sub @ zs" by (auto simp: prefix_def)
  then show "take (length sub) xs = sub" by simp
next
  assume "take (length sub) xs = sub"
  then have "xs = sub @ drop (length sub) xs" by (metis append_take_drop_id)
  then show "prefix sub xs" by (metis prefixI)
qed

lemma js_includes_sublist: "js_includes s sub \<longleftrightarrow> sublist sub s"
  by (induction s) (simp_all add: sublist_Cons_right prefix_iff_take)

section \<open>Self-authored messages\<close>

text \<open>
  Claim C3. For every inbound message with \<^verbatim>\<open>fromMe\<close> true, \<^verbatim>\<open>handleMessage\<close> returns at once:
  it returns normally and leaves the whole runtime state as it was, the trace included, so
  no reply of any kind is sent and the AI agent is not called.
\<close>

theorem handleMessage_ignores_own_messages:
  "fromMe message \<Longrightarrow> handleMessage b message s = (Ret (), s)"
  by (simp add: handleMessage_def handleMessage_try_def)

theorem handleMessage_ignores_own_messages_witness:
  "fromMe (hi_message\<lparr>fromMe := True\<rparr>)
   \<and> handleMessage a_bot (hi_message\<lparr>fromMe := True\<rparr>) at_rest = (Ret (), at_rest)"
  using handleMessage_ignores_own_messages [of "hi_message\<lparr>fromMe := True\<rparr>" a_bot at_rest]
  by simp

section \<open>Sending while not ready\<close>

text \<open>
  Claim C5. For every number and message text, while the ready flag \<^verbatim>\<open>isReady\<close> is false
  \<^verbatim>\<open>sendMessage\<close> returns \<^verbatim>\<open>false\<close> and leaves the runtime state as it was: the trace gets no
  entry, so the transport's \<^verbatim>\<open>client.sendMessage\<close> is not invoked.
\<close>

theorem sendMessage_not_ready:
  "\<not> isReady b \<Longrightarrow> sendMessage b num text s = (Ret False, s)"
  by (simp add: sendMessage_def)

theorem sendMessage_not_ready_witness:
  "\<not> isReady a_bot \<and> sendMessage a_bot ''5511999990000'' ''Oi'' at_rest = (Ret False, at_rest)"
  using sendMessage_not_ready [of a_bot "''5511999990000''" "''Oi''" at_rest]
  by (simp add: a_bot_def WhatsAppBot_def)

section \<open>Reaching the ready state\<close>

lemma run_snoc: "run (as @ [a]) s = step a (run as s)"
  by (induction as arbitrary: s) simp_all

lemma sendMessage_ready_client:
  assumes "isReady b" and "client b = Some c"
  shows "sendMessage b num text s =
     (Ret (case client_sendMessage c (trace s)
                 (if sublist ''@c.us'' num then num else num @ ''@c.us'') text of
             Inl e \<Rightarrow> False | Inr u \<Rightarrow> True),
      s\<lparr>trace := trace s @
         [ClientSendMessage (if sublist ''@c.us'' num then num else num @ ''@c.us'') text]\<rparr>)"
proof (cases "client_sendMessage c (trace s)
                 (if sublist ''@c.us'' num then num else num @ ''@c.us'') text")
  case (Inl e)
  with assms show ?thesis
    by (simp add: sendMessage_def js_includes_sublist Let_def)
next
  case (Inr u)
  with assms show ?thesis
    by (simp add: sendMessage_def js_includes_sublist Let_def)
qed

lemma ready_has_client:
  assumes "constructed s0" and "isReady (this (run as s0))"
  shows "\<exists>c. client (this (run as s0)) = Some c"
proof -
  from assms(1) have "wired (run as s0)" by (simp add: wired_constructed wired_run)
  with assms(2) show ?thesis
    by (cases "client (this (run as s0))") (simp_all add: wired_def)
qed

lemma constructed_at_rest: "constructed (bot_at_rest a_bot)"
  by (simp add: constructed_def bot_at_rest_def a_bot_def WhatsAppBot_def)

lemma good_lib_creates: "session_created good_lib s"
  by (simp add: session_created_def good_lib_def)

lemma good_lib_returns:
  "lib_initialize good_lib tr = Inr ()"
  "lib_sendMessage good_lib tr c m = Inr ()"
  "lib_destroy good_lib tr = Inr ()"
  by (simp_all add: good_lib_def)

lemma refusing_lib_refuses: "\<not> session_created refusing_lib s"
  by (simp add: session_created_def refusing_lib_def)



lemma ready_state_eq:
  "ready_state =
     \<lparr>trace = [NewLocalAuth ''whatsapp-ai-bot'' ''./whatsapp-session'',
               NewClient (session_options a_bot), ClientInitialize],
      pending = [], fresh = 1,
      clock = ''2024-01-01T00:00:00.000Z'',
      this = a_bot\<lparr>client := Some (session good_lib a_bot), initTimeout := None,
                    isReady := True\<rparr>\<rparr>"
  by (simp add: ready_state_def initialize_run good_lib_creates bot_at_rest_def a_bot_def
      WhatsAppBot_def env_or_def disarm_def emit_def session_def registered_listeners_def)

section \<open>Sending while ready\<close>

text \<open>
  Claim C10. In every state an adapter can reach in which the ready flag is true, the
  session exists and \<^verbatim>\<open>sendMessage\<close> invokes the transport's \<^verbatim>\<open>client.sendMessage\<close> exactly once,
  with the chat id equal to the number itself when the number contains \<^verbatim>\<open>@c.us\<close> as a
  substring and to the number followed by \<^verbatim>\<open>@c.us\<close> otherwise; it returns \<^verbatim>\<open>true\<close> when that
  call returns and \<^verbatim>\<open>false\<close>, without throwing, when that call throws.
\<close>

theorem sendMessage_ready:
  assumes "constructed s0" and "s = run as s0" and "isReady (this s)"
  shows "\<exists>c. client (this s) = Some c \<and>
     sendMessage (this s) num text s =
       (Ret (case client_sendMessage c (trace s)
                   (if sublist ''@c.us'' num then num else num @ ''@c.us'') text of
               Inl e \<Rightarrow> False | Inr u \<Rightarrow> True),
        s\<lparr>trace := trace s @
           [ClientSendMessage (if sublist ''@c.us'' num then num else num @ ''@c.us'') text]\<rparr>)"
proof -
  from assms obtain c where c: "client (this s) = Some c"
    using ready_has_client by blast
  from assms(3) c show ?thesis by (simp add: sendMessage_ready_client)
qed

theorem sendMessage_ready_witness:
  "constructed (bot_at_rest a_bot)
   \<and> ready_state = run [Initialize good_lib, Emit EvReady] (bot_at_rest a_bot)
   \<and> isReady (this ready_state)
   \<and> sendMessage (this ready_state) ''5511999990000'' ''Oi'' ready_state =
       (Ret True,
        ready_state\<lparr>trace :=
          trace ready_state @ [ClientSendMessage ''5511999990000@c.us'' ''Oi'']\<rparr>)"
proof -
  have r: "isReady (this ready_state)" by (simp add: ready_state_eq)
  have n: "\<not> sublist ''@c.us'' ''5511999990000''"
    by (simp add: js_includes_sublist [symmetric])
  from sendMessage_ready [OF constructed_at_rest ready_state_def r,
      of "''5511999990000''" "''Oi''"]
  obtain c where c: "client (this ready_state) = Some c"
    and s: "sendMessage (this ready_state) ''5511999990000'' ''Oi'' ready_state =
       (Ret (case client_sendMessage c (trace ready_state)
                   (if sublist ''@c.us'' ''5511999990000'' then ''5511999990000''
                    else ''5511999990000'' @ ''@c.us'') ''Oi'' of
               Inl e \<Rightarrow> False | Inr u \<Rightarrow> True),
        ready_state\<lparr>trace := trace ready_state @
           [ClientSendMessage (if sublist ''@c.us'' ''5511999990000'' then ''5511999990000''
                               else ''5511999990000'' @ ''@c.us'') ''Oi'']\<rparr>)"
    by blast
  from c have "c = session good_lib a_bot" by (simp add: ready_state_eq)
  then have "client_sendMessage c = (\<lambda>tr c m. Inr ())"
    by (simp add: session_def good_lib_def)
  with s n have "sendMessage (this ready_state) ''5511999990000'' ''Oi'' ready_state =
       (Ret True,
        ready_state\<lparr>trace := trace ready_state @
          [ClientSendMessage ''5511999990000@c.us'' ''Oi'']\<rparr>)"
    by simp
  then show ?thesis
    using constructed_at_rest r ready_state_def by simp
qed

section \<open>The readiness flag\<close>



section \<open>The callbacks of the session\<close>

text \<open>
  Claim C9, as amended. When the constructors of the session return, \<^verbatim>\<open>initialize\<close> registers
  exactly eight event callbacks on the session it creates (through \<^verbatim>\<open>setupEventHandlers\<close>), one
  for each of the events \<^verbatim>\<open>qr\<close>, \<^verbatim>\<open>ready\<close>, \<^verbatim>\<open>authenticated\<close>, \<^verbatim>\<open>loading_screen\<close>, \<^verbatim>\<open>message\<close>,
  \<^verbatim>\<open>disconnected\<close>, \<^verbatim>\<open>auth_failure\<close> and \<^verbatim>\<open>error\<close>, in this order. When a constructor throws,
  it registers none: the adapter keeps the session it had, if any.
\<close>

theorem initialize_registers_eight_callbacks:
  "(session_created l s \<longrightarrow>
      (\<exists>c. client (this (step (Initialize l) s)) = Some c
         \<and> listeners c =
             [(''qr'', OnQr), (''ready'', OnReady), (''authenticated'', OnAuthenticated),
              (''loading_screen'', OnLoadingScreen), (''message'', OnMessage),
              (''disconnected'', OnDisconnected), (''auth_failure'', OnAuthFailure),
              (''error'', OnError)]
         \<and> length (listeners c) = 8))
   \<and> (\<not> session_created l s \<longrightarrow>
      client (this (step (Initialize l) s)) = client (this s))"
proof (intro conjI impI)
  assume "session_created l s"
  then show "\<exists>c. client (this (step (Initialize l) s)) = Some c
         \<and> listeners c =
             [(''qr'', OnQr), (''ready'', OnReady), (''authenticated'', OnAuthenticated),
              (''loading_screen'', OnLoadingScreen), (''message'', OnMessage),
              (''disconnected'', OnDisconnected), (''auth_failure'', OnAuthFailure),
              (''error'', OnError)]
         \<and> length (listeners c) = 8"
    by (simp add: initialize_run session_def registered_listeners_def)
next
  assume n: "\<not> session_created l s"
  from initialize_throws [OF n] obtain e tr where
    "WhatsAppBot_initialize l s =
       (Throw e, s\<lparr>pending := disarm (initTimeout (this s)) (pending s), trace := tr\<rparr>)"
    by blast
  then show "client (this (step (Initialize l) s)) = client (this s)" by simp
qed

text \<open>The claim as stated, "exactly six", fails on the session \<^verbatim>\<open>initialize\<close> creates for the
  adapter of the scenario: it carries eight listeners.\<close>

theorem six_callbacks_counterexample:
  "\<not> (\<forall>c. client (this (step (Initialize good_lib) (bot_at_rest a_bot))) = Some c
          \<longrightarrow> length (listeners c) = 6)"
  by (simp add: initialize_run good_lib_creates session_def registered_listeners_def)

theorem initialize_registers_eight_callbacks_witness:
  "session_created good_lib (bot_at_rest a_bot)
   \<and> (\<exists>c. client (this (step (Initialize good_lib) (bot_at_rest a_bot))) = Some c
       \<and> map fst (listeners c) =
           [''qr'', ''ready'', ''authenticated'', ''loading_screen'', ''message'',
            ''disconnected'', ''auth_failure'', ''error'']
       \<and> length (listeners c) = 8)
   \<and> \<not> session_created refusing_lib (bot_at_rest a_bot)
   \<and> client (this (step (Initialize refusing_lib) (bot_at_rest a_bot))) = None"
proof -
  have n: "client (this (bot_at_rest a_bot)) = None"
    by (simp add: bot_at_rest_def a_bot_def WhatsAppBot_def)
  have g: "session_created good_lib (bot_at_rest a_bot)" by (rule good_lib_creates)
  have h: "\<not> session_created refusing_lib (bot_at_rest a_bot)"
    by (rule refusing_lib_refuses)
  from initialize_registers_eight_callbacks [of good_lib "bot_at_rest a_bot"] g
  have 1: "\<exists>c. client (this (step (Initialize good_lib) (bot_at_rest a_bot))) = Some c
       \<and> map fst (listeners c) =
           [''qr'', ''ready'', ''authenticated'', ''loading_screen'', ''message'',
            ''disconnected'', ''auth_failure'', ''error'']
       \<and> length (listeners c) = 8"
    by (auto simp del: step.simps)
  from initialize_registers_eight_callbacks [of refusing_lib "bot_at_rest a_bot"] h n
  have 2: "client (this (step (Initialize refusing_lib) (bot_at_rest a_bot))) = None"
    by (simp del: step.simps)
  from 1 2 g h show ?thesis by blast
qed

section \<open>Running the message handler\<close>

lemma handleMessage_catch_run:
  "handleMessage_catch m e s =
     (if nullish e then (Throw TypeError, s)
      else (Ret (), s\<lparr>trace := trace s @ [Reply (JStr handler_error_text)]\<rparr>))"
  by (cases "reply m (trace s) (JStr handler_error_text)")
     (simp_all add: handleMessage_catch_def)

lemma reply_step_run:
  "\<exists>rest. trace (snd (reply_step m v s)) = trace s @ Reply v # rest
      \<and> set rest \<subseteq> {Reply (JStr handler_error_text)}
      \<and> (reply m (trace s) v = Inr () \<longrightarrow> rest = [] \<and> fst (reply_step m v s) = Ret ())"
proof (cases "reply m (trace s) v")
  case (Inl e)
  then show ?thesis
    by (cases "nullish e") (simp_all add: reply_step_def handleMessage_catch_run)
next
  case (Inr u)
  then show ?thesis by (simp add: reply_step_def)
qed

lemma handleMessage_text_run:
  assumes "\<not> fromMe m" and "mtype m = ''chat''"
    and "getContact m (trace s) = Inr c"
    and "getChat m (trace s @ [GetContact]) = Inr ch"
    and "sendStateTyping ch (trace s @ [GetContact, GetChat]) = Inr ()"
    and "processMessageWithAI b (body m) c
           (s\<lparr>trace := trace s @ [GetContact, GetChat, SendStateTyping]\<rparr>) = (Ret v, s4)"
  shows "handleMessage b m s =
     (if truthy v then
        (case v of JStr t \<Rightarrow> reply_step m v s4
         | _ \<Rightarrow> handleMessage_catch m TypeError s4)
      else reply_step m (JStr fallback_text) s4)"
  using assms
  by (cases v)
     (simp_all add: handleMessage_def handleMessage_try_def reply_step_def substring_log_def
        try_catch_def io_bind_def call_def split: sum.splits)

lemma processMessageWithAI_unset:
  "aiAgent b = None \<Longrightarrow>
   processMessageWithAI b t c s = (Ret (JStr ai_unavailable_text), s)"
  by (simp add: processMessageWithAI_def)

lemma processMessageWithAI_agent_throws:
  assumes "aiAgent b = Some ai"
    and "processMessage ai (trace s) t
           \<lparr>name = js_or (name c) (JStr default_user_name), number = number c,
            timestamp = clock s\<rparr> = Inl e"
  shows "processMessageWithAI b t c s =
     ((if nullish e then Throw TypeError else Ret (JStr ai_apology_text)),
      s\<lparr>trace := trace s @
         [ProcessMessage t
            \<lparr>name = js_or (name c) (JStr default_user_name), number = number c,
             timestamp = clock s\<rparr>]\<rparr>)"
  using assms
  by (simp add: processMessageWithAI_def try_catch_def io_bind_def call_def Let_def)

lemma processMessageWithAI_formatted:
  assumes "aiAgent b = Some ai" and "responseFormatter b = Some fmt"
    and "processMessage ai (trace s) t
           \<lparr>name = js_or (name c) (JStr default_user_name), number = number c,
            timestamp = clock s\<rparr> = Inr a"
    and "format fmt
           (trace s @ [ProcessMessage t
              \<lparr>name = js_or (name c) (JStr default_user_name), number = number c,
               timestamp = clock s\<rparr>]) a = Inr out"
  shows "processMessageWithAI b t c s =
     (Ret out,
      s\<lparr>trace := trace s @
         [ProcessMessage t
            \<lparr>name = js_or (name c) (JStr default_user_name), number = number c,
             timestamp = clock s\<rparr>,
          Format a]\<rparr>)"
  using assms
  by (simp add: processMessageWithAI_def try_catch_def io_bind_def call_def Let_def)

section \<open>Inbound text messages\<close>

text \<open>
  Claim C1, as amended. For every inbound text message (type \<^verbatim>\<open>chat\<close>) not authored by the bot
  for which the contact lookup, the chat lookup and the typing indicator succeed,
  \<^verbatim>\<open>handleMessage\<close> calls \<^verbatim>\<open>processMessageWithAI\<close> with the message body and the contact, and then
  replies on the same message: with what was produced when that is a non-empty string, and
  with the fixed fallback apology when it is falsy (no text). When the AI agent and the
  formatter are set and their calls return, what was produced is the formatter's output. A
  reply that succeeds is the only one; one that throws is followed by at most the
  handler's error notice.
\<close>

theorem text_message_reply:
  assumes "\<not> fromMe m" and "mtype m = ''chat''"
    and "getContact m (trace s) = Inr c"
    and "getChat m (trace s @ [GetContact]) = Inr ch"
    and "sendStateTyping ch (trace s @ [GetContact, GetChat]) = Inr ()"
    and "s3 = s\<lparr>trace := trace s @ [GetContact, GetChat, SendStateTyping]\<rparr>"
    and "processMessageWithAI b (body m) c s3 = (r, s4)"
    and "ctx = \<lparr>name = js_or (name c) (JStr default_user_name), number = number c,
                timestamp = clock s\<rparr>"
  shows "(\<forall>t. r = Ret (JStr t) \<and> t \<noteq> [] \<longrightarrow>
            (\<exists>rest. trace (snd (handleMessage b m s)) = trace s4 @ Reply (JStr t) # rest
               \<and> set rest \<subseteq> {Reply (JStr handler_error_text)}
               \<and> (reply m (trace s4) (JStr t) = Inr () \<longrightarrow>
                    rest = [] \<and> fst (handleMessage b m s) = Ret ())))
       \<and> (\<forall>v. r = Ret v \<and> \<not> truthy v \<longrightarrow>
            (\<exists>rest. trace (snd (handleMessage b m s)) =
                 trace s4 @ Reply (JStr fallback_text) # rest
               \<and> set rest \<subseteq> {Reply (JStr handler_error_text)}
               \<and> (reply m (trace s4) (JStr fallback_text) = Inr () \<longrightarrow>
                    rest = [] \<and> fst (handleMessage b m s) = Ret ())))
       \<and> (\<forall>ai fmt a out.
             aiAgent b = Some ai \<and> responseFormatter b = Some fmt
             \<and> processMessage ai (trace s3) (body m) ctx = Inr a
             \<and> format fmt (trace s3 @ [ProcessMessage (body m) ctx]) a = Inr out \<longrightarrow>
             r = Ret out \<and> trace s4 = trace s3 @ [ProcessMessage (body m) ctx, Format a])"
proof (intro conjI allI impI)
  fix t
  assume r: "r = Ret (JStr t) \<and> t \<noteq> []"
  with assms have "handleMessage b m s = reply_step m (JStr t) s4"
    by (simp add: handleMessage_text_run)
  with reply_step_run [of m "JStr t" s4]
  show "\<exists>rest. trace (snd (handleMessage b m s)) = trace s4 @ Reply (JStr t) # rest
               \<and> set rest \<subseteq> {Reply (JStr handler_error_text)}
               \<and> (reply m (trace s4) (JStr t) = Inr () \<longrightarrow>
                    rest = [] \<and> fst (handleMessage b m s) = Ret ())"
    by simp
next
  fix v
  assume r: "r = Ret v \<and> \<not> truthy v"
  with assms have "handleMessage b m s = reply_step m (JStr fallback_text) s4"
    by (simp add: handleMessage_text_run)
  with reply_step_run [of m "JStr fallback_text" s4]
  show "\<exists>rest. trace (snd (handleMessage b m s)) =
                 trace s4 @ Reply (JStr fallback_text) # rest
               \<and> set rest \<subseteq> {Reply (JStr handler_error_text)}
               \<and> (reply m (trace s4) (JStr fallback_text) = Inr () \<longrightarrow>
                    rest = [] \<and> fst (handleMessage b m s) = Ret ())"
    by simp
next
  fix ai fmt a out
  assume h: "aiAgent b = Some ai \<and> responseFormatter b = Some fmt
             \<and> processMessage ai (trace s3) (body m) ctx = Inr a
             \<and> format fmt (trace s3 @ [ProcessMessage (body m) ctx]) a = Inr out"
  have "clock s3 = clock s" using assms(6) by simp
  with h assms(8) have "processMessageWithAI b (body m) c s3 =
     (Ret out, s3\<lparr>trace := trace s3 @ [ProcessMessage (body m) ctx, Format a]\<rparr>)"
    by (simp add: processMessageWithAI_formatted)
  with assms(7) show "r = Ret out" and
    "trace s4 = trace s3 @ [ProcessMessage (body m) ctx, Format a]"
    by auto
qed

lemma texts_differ:
  "handler_error_text \<noteq> fallback_text" "handler_error_text \<noteq> unsupported_type_text"
  by (simp_all add: handler_error_text_def fallback_text_def unsupported_type_text_def)

text \<open>The scenario: inbound text "Hi" from a contact that is not the bot, the AI agent
  answering \<^verbatim>\<open>{response: "Hello!"}\<close> and the formatter returning that text: the one reply is
  exactly "Hello!".\<close>

theorem text_message_reply_witness:
  "\<not> fromMe hi_message \<and> mtype hi_message = ''chat'' \<and> body hi_message = ''Hi''
   \<and> fst (handleMessage a_bot hi_message at_rest) = Ret ()
   \<and> trace (snd (handleMessage a_bot hi_message at_rest)) =
       [GetContact, GetChat, SendStateTyping,
        ProcessMessage ''Hi''
          \<lparr>name = JStr ''Ana'', number = JStr ''5511999990000'',
           timestamp = ''2024-01-01T00:00:00.000Z''\<rparr>,
        Format (JObj [(''response'', JStr ''Hello!'')]),
        Reply (JStr ''Hello!'')]"
proof -
  let ?s3 = "at_rest\<lparr>trace := trace at_rest @ [GetContact, GetChat, SendStateTyping]\<rparr>"
  let ?ctx = "\<lparr>name = JStr ''Ana'', number = JStr ''5511999990000'',
                timestamp = ''2024-01-01T00:00:00.000Z''\<rparr>"
  let ?s4 = "at_rest\<lparr>trace := [GetContact, GetChat, SendStateTyping,
               ProcessMessage ''Hi'' ?ctx, Format (JObj [(''response'', JStr ''Hello!'')])]\<rparr>"
  have 1: "\<not> fromMe hi_message" and 2: "mtype hi_message = ''chat''"
    and 0: "body hi_message = ''Hi''"
    by (simp_all add: hi_message_def)
  have 3: "getContact hi_message (trace at_rest) = Inr a_contact"
    and 4: "getChat hi_message (trace at_rest @ [GetContact]) = Inr a_chat"
    by (simp_all add: hi_message_def)
  have 5: "sendStateTyping a_chat (trace at_rest @ [GetContact, GetChat]) = Inr ()"
    by (simp add: a_chat_def)
  have 7: "processMessageWithAI a_bot (body hi_message) a_contact ?s3 =
             (Ret (JStr ''Hello!''), ?s4)"
    by (simp add: processMessageWithAI_def a_bot_def WhatsAppBot_def hello_agent_def
        text_formatter_def hi_message_def a_contact_def at_rest_def js_or_def
        try_catch_def io_bind_def call_def Let_def)
  have 9: "reply hi_message (trace ?s4) (JStr ''Hello!'') = Inr ()"
    by (simp add: hi_message_def)
  from text_message_reply [OF 1 2 3 4 5 refl 7 refl] 9
  have "fst (handleMessage a_bot hi_message at_rest) = Ret ()
      \<and> trace (snd (handleMessage a_bot hi_message at_rest)) =
          trace ?s4 @ [Reply (JStr ''Hello!'')]"
    by auto
  with 0 1 2 show ?thesis by simp
qed

text \<open>The claim as stated, for every inbound text message, fails when the contact lookup
  throws: \<^verbatim>\<open>processMessageWithAI\<close> is not called, and the one reply is the handler's error
  notice, which is neither a formatter's output nor the fallback apology.\<close>

theorem text_message_reply_counterexample:
  "\<not> fromMe (lost_contact hi_message) \<and> mtype (lost_contact hi_message) = ''chat''
   \<and> handleMessage a_bot (lost_contact hi_message) at_rest =
       (Ret (), at_rest\<lparr>trace := [GetContact, Reply (JStr handler_error_text)]\<rparr>)
   \<and> handler_error_text \<noteq> fallback_text"
  by (simp add: texts_differ handleMessage_def handleMessage_try_def handleMessage_catch_run
      lost_contact_def hi_message_def at_rest_def try_catch_def io_bind_def call_def)

lemma handleMessage_no_contact:
  assumes "\<not> fromMe m" and "getContact m (trace s) = Inl e"
  shows "handleMessage b m s = handleMessage_catch m e (s\<lparr>trace := trace s @ [GetContact]\<rparr>)"
  using assms by (simp add: handleMessage_def handleMessage_try_def)

lemma handleMessage_no_chat:
  assumes "\<not> fromMe m" and "getContact m (trace s) = Inr c"
    and "getChat m (trace s @ [GetContact]) = Inl e"
  shows "handleMessage b m s =
     handleMessage_catch m e (s\<lparr>trace := trace s @ [GetContact, GetChat]\<rparr>)"
  using assms
  by (simp add: handleMessage_def handleMessage_try_def try_catch_def io_bind_def call_def)

lemma handleMessage_non_text_run:
  assumes "\<not> fromMe m" and "mtype m \<noteq> ''chat''"
    and "getContact m (trace s) = Inr c"
    and "getChat m (trace s @ [GetContact]) = Inr ch"
  shows "handleMessage b m s =
     reply_step m (JStr unsupported_type_text) (s\<lparr>trace := trace s @ [GetContact, GetChat]\<rparr>)"
  using assms
  by (cases "reply m (trace s @ [GetContact, GetChat]) (JStr unsupported_type_text)")
     (simp_all add: handleMessage_def handleMessage_try_def reply_step_def try_catch_def
        io_bind_def call_def)

section \<open>Inbound messages that are not text\<close>

text \<open>
  Claim C2, as amended. For every inbound message that is not self-authored and whose type is
  not \<^verbatim>\<open>chat\<close>, \<^verbatim>\<open>handleMessage\<close> never calls the AI agent (nor the formatter); and when the
  contact lookup and the chat lookup succeed, its first reply is the fixed "unsupported
  type" text. When that reply succeeds it is the only one and \<^verbatim>\<open>handleMessage\<close> returns; when
  it throws it is followed by at most the handler's error notice.
\<close>

theorem non_text_message:
  assumes "\<not> fromMe m" and "mtype m \<noteq> ''chat''"
  shows "(\<exists>new. trace (snd (handleMessage b m s)) = trace s @ new
            \<and> (\<forall>t u. ProcessMessage t u \<notin> set new) \<and> (\<forall>v. Format v \<notin> set new))
       \<and> (\<forall>c ch. getContact m (trace s) = Inr c
                 \<and> getChat m (trace s @ [GetContact]) = Inr ch \<longrightarrow>
            (\<exists>rest. trace (snd (handleMessage b m s)) =
                 trace s @ [GetContact, GetChat, Reply (JStr unsupported_type_text)] @ rest
               \<and> set rest \<subseteq> {Reply (JStr handler_error_text)}
               \<and> (reply m (trace s @ [GetContact, GetChat]) (JStr unsupported_type_text)
                     = Inr () \<longrightarrow>
                    rest = [] \<and> fst (handleMessage b m s) = Ret ())))"
proof
  show "\<exists>new. trace (snd (handleMessage b m s)) = trace s @ new
            \<and> (\<forall>t u. ProcessMessage t u \<notin> set new) \<and> (\<forall>v. Format v \<notin> set new)"
  proof (cases "getContact m (trace s)")
    case (Inl e)
    with assms have "trace (snd (handleMessage b m s)) =
        trace s @ (if nullish e then [GetContact]
                   else [GetContact, Reply (JStr handler_error_text)])"
      by (simp add: handleMessage_no_contact handleMessage_catch_run)
    then show ?thesis by (intro exI conjI, assumption) auto
  next
    case c: (Inr c)
    show ?thesis
    proof (cases "getChat m (trace s @ [GetContact])")
      case (Inl e)
      with assms c have "trace (snd (handleMessage b m s)) =
          trace s @ (if nullish e then [GetContact, GetChat]
                     else [GetContact, GetChat, Reply (JStr handler_error_text)])"
        by (simp add: handleMessage_no_chat handleMessage_catch_run)
      then show ?thesis by (intro exI conjI, assumption) auto
    next
      case (Inr ch)
      let ?s2 = "s\<lparr>trace := trace s @ [GetContact, GetChat]\<rparr>"
      from reply_step_run [of m "JStr unsupported_type_text" ?s2]
      obtain rest where
        "trace (snd (reply_step m (JStr unsupported_type_text) ?s2)) =
           trace ?s2 @ Reply (JStr unsupported_type_text) # rest"
        and "set rest \<subseteq> {Reply (JStr handler_error_text)}"
        by blast
      with assms c Inr have "trace (snd (handleMessage b m s)) =
          trace s @ ([GetContact, GetChat, Reply (JStr unsupported_type_text)] @ rest)"
        and "\<forall>t u. ProcessMessage t u \<notin> set ([GetContact, GetChat, Reply (JStr unsupported_type_text)] @ rest)"
        and "\<forall>v. Format v \<notin> set ([GetContact, GetChat, Reply (JStr unsupported_type_text)] @ rest)"
        by (auto simp: handleMessage_non_text_run)
      then show ?thesis by blast
    qed
  qed
next
  show "\<forall>c ch. getContact m (trace s) = Inr c
                 \<and> getChat m (trace s @ [GetContact]) = Inr ch \<longrightarrow>
            (\<exists>rest. trace (snd (handleMessage b m s)) =
                 trace s @ [GetContact, GetChat, Reply (JStr unsupported_type_text)] @ rest
               \<and> set rest \<subseteq> {Reply (JStr handler_error_text)}
               \<and> (reply m (trace s @ [GetContact, GetChat]) (JStr unsupported_type_text)
                     = Inr () \<longrightarrow>
                    rest = [] \<and> fst (handleMessage b m s) = Ret ()))"
  proof (intro allI impI)
    fix c ch
    assume h: "getContact m (trace s) = Inr c \<and> getChat m (trace s @ [GetContact]) = Inr ch"
    let ?s2 = "s\<lparr>trace := trace s @ [GetContact, GetChat]\<rparr>"
    from assms h have "handleMessage b m s = reply_step m (JStr unsupported_type_text) ?s2"
      by (simp add: handleMessage_non_text_run)
    with reply_step_run [of m "JStr unsupported_type_text" ?s2]
    show "\<exists>rest. trace (snd (handleMessage b m s)) =
                 trace s @ [GetContact, GetChat, Reply (JStr unsupported_type_text)] @ rest
               \<and> set rest \<subseteq> {Reply (JStr handler_error_text)}
               \<and> (reply m (trace s @ [GetContact, GetChat]) (JStr unsupported_type_text)
                     = Inr () \<longrightarrow>
                    rest = [] \<and> fst (handleMessage b m s) = Ret ())"
      by simp
  qed
qed

theorem non_text_message_witness:
  "\<not> fromMe image_message \<and> mtype image_message \<noteq> ''chat''
   \<and> fst (handleMessage a_bot image_message at_rest) = Ret ()
   \<and> trace (snd (handleMessage a_bot image_message at_rest)) =
       [GetContact, GetChat, Reply (JStr unsupported_type_text)]"
proof -
  have 1: "\<not> fromMe image_message" and 2: "mtype image_message \<noteq> ''chat''"
    by (simp_all add: image_message_def hi_message_def)
  have 3: "getContact image_message (trace at_rest) = Inr a_contact"
    and 4: "getChat image_message (trace at_rest @ [GetContact]) = Inr a_chat"
    and 5: "reply image_message (trace at_rest @ [GetContact, GetChat])
              (JStr unsupported_type_text) = Inr ()"
    by (simp_all add: image_message_def hi_message_def)
  from non_text_message [OF 1 2, of a_bot at_rest] 3 4 5
  have "fst (handleMessage a_bot image_message at_rest) = Ret ()
      \<and> trace (snd (handleMessage a_bot image_message at_rest)) =
          trace at_rest @ [GetContact, GetChat, Reply (JStr unsupported_type_text)]"
    by auto
  with 1 2 show ?thesis by (simp add: at_rest_def)
qed

text \<open>The claim as stated, for every message that is not text, fails when the contact lookup
  throws: the one reply is the handler's error notice, not the "unsupported type" text.\<close>

theorem non_text_message_counterexample:
  "\<not> fromMe (lost_contact image_message) \<and> mtype (lost_contact image_message) \<noteq> ''chat''
   \<and> handleMessage a_bot (lost_contact image_message) at_rest =
       (Ret (), at_rest\<lparr>trace := [GetContact, Reply (JStr handler_error_text)]\<rparr>)
   \<and> handler_error_text \<noteq> unsupported_type_text"
  by (simp add: texts_differ handleMessage_def handleMessage_try_def handleMessage_catch_run
      lost_contact_def image_message_def hi_message_def at_rest_def try_catch_def
      io_bind_def call_def)

section \<open>Exceptions of the AI dispatch\<close>

text \<open>
  Claim C4. \<^verbatim>\<open>processMessageWithAI\<close> is to return a fixed string and never throw. It does so
  when the AI agent is unset (\<open>processMessageWithAI_unset\<close>) and when the agent throws anything
  but \<^verbatim>\<open>undefined\<close> or \<^verbatim>\<open>null\<close> (\<open>processMessageWithAI_agent_throws\<close>). When the agent's promise is
  rejected with \<^verbatim>\<open>undefined\<close>, the \<^verbatim>\<open>catch\<close> block reads \<^verbatim>\<open>error.stack\<close> of it for the log, and the
  \<^verbatim>\<open>TypeError\<close> of that read leaves \<^verbatim>\<open>processMessageWithAI\<close>: evaluated here.
\<close>

theorem processMessageWithAI_undefined_rejection:
  "processMessageWithAI (a_bot\<lparr>aiAgent := Some rejecting_agent\<rparr>) ''Hi'' a_contact at_rest =
     (Throw TypeError,
      at_rest\<lparr>trace :=
        [ProcessMessage ''Hi''
           \<lparr>name = JStr ''Ana'', number = JStr ''5511999990000'',
            timestamp = ''2024-01-01T00:00:00.000Z''\<rparr>]\<rparr>)"
  by (simp add: processMessageWithAI_def rejecting_agent_def a_contact_def at_rest_def
      js_or_def try_catch_def io_bind_def call_def Let_def)

section \<open>Running the supervisor\<close>

lemma get_sys_run [simp]: "get_sys s = (Ret (sys s), s)"
  by (simp add: get_sys_def)

lemma modify_sys_run [simp]: "modify_sys f s = (Ret (), s\<lparr>sys := f (sys s)\<rparr>)"
  by (simp add: modify_sys_def)

lemma set_systemRunning_run [simp]:
  "set_systemRunning v s = (Ret (), s\<lparr>systemRunning := v\<rparr>)"
  by (simp add: set_systemRunning_def)

lemma process_exit_run [simp]:
  "process_exit c s = (Exit c, s\<lparr>trace := trace s @ [ProcessExit c]\<rparr>)"
  by (simp add: process_exit_def)

lemma console_error_run [simp]:
  "console_error l v s = (Ret (), s\<lparr>trace := trace s @ [ConsoleError l v]\<rparr>)"
  by (simp add: console_error_def)

lemma initialize_catch_run:
  "initialize_catch e s =
     (if nullish e
      then (Throw TypeError, s\<lparr>trace := trace s @ [ConsoleError init_error_label e]\<rparr>)
      else (Exit 1,
            s\<lparr>trace := trace s @ [ConsoleError init_error_label e, ProcessExit 1],
              systemRunning := False\<rparr>))"
  by (simp add: initialize_catch_def)

lemma initialize_failure:
  assumes "initialize_try d s = (Throw e, s')" and "\<not> nullish e"
  shows "WhatsAppAISystem_initialize d s =
     (Exit 1, s'\<lparr>trace := trace s' @ [ConsoleError init_error_label e, ProcessExit 1],
                systemRunning := False\<rparr>)"
  using assms by (simp add: WhatsAppAISystem_initialize_def initialize_catch_run)

lemma main_guard:
  "systemRunning s \<Longrightarrow> main d s = (Exit 0, s\<lparr>trace := trace s @ [ProcessExit 0]\<rparr>)"
  by (simp add: main_def)

lemma js_or_flag:
  "js_or (case x of None \<Rightarrow> JUndefined | Some c \<Rightarrow> JBool (f c)) (JBool False) =
     JBool (case x of None \<Rightarrow> False | Some c \<Rightarrow> f c)"
  by (cases x) (simp_all add: js_or_def)

lemma health_fields:
  "health y =
     JObj [(''status'', JStr ''healthy''),
           (''whatsapp'', JBool (case whatsappBot y of None \<Rightarrow> False | Some b \<Rightarrow> isReady b)),
           (''supabase'',
              JBool (case supabaseExecutor y of None \<Rightarrow> False | Some e \<Rightarrow> isConnected e)),
           (''ai'', JBool (case sys_aiAgent y of None \<Rightarrow> False | Some a \<Rightarrow> agent_isReady a))]"
  by (simp add: health_def js_or_flag)

section \<open>The health route\<close>

text \<open>
  Claim C7. For every state of the system, the response of \<^verbatim>\<open>GET /health\<close> is an object
  \<^verbatim>\<open>{status: "healthy", whatsapp, supabase, ai}\<close> whose last three fields are booleans; a field
  is \<^verbatim>\<open>false\<close> when its component is absent, and when none of \<^verbatim>\<open>whatsappBot\<close>,
  \<^verbatim>\<open>supabaseExecutor\<close> and \<^verbatim>\<open>aiAgent\<close> has been constructed all three are \<^verbatim>\<open>false\<close>.
\<close>

theorem health_response:
  "(\<exists>w p a. health y =
       JObj [(''status'', JStr ''healthy''), (''whatsapp'', JBool w), (''supabase'', JBool p),
             (''ai'', JBool a)])
   \<and> (whatsappBot y = None \<longrightarrow> opt_get (health y) ''whatsapp'' = JBool False)
   \<and> (supabaseExecutor y = None \<longrightarrow> opt_get (health y) ''supabase'' = JBool False)
   \<and> (sys_aiAgent y = None \<longrightarrow> opt_get (health y) ''ai'' = JBool False)
   \<and> (whatsappBot y = None \<and> supabaseExecutor y = None \<and> sys_aiAgent y = None \<longrightarrow>
        health y =
          JObj [(''status'', JStr ''healthy''), (''whatsapp'', JBool False),
                (''supabase'', JBool False), (''ai'', JBool False)])"
  by (simp add: health_fields)

theorem health_response_witness:
  "whatsappBot (WhatsAppAISystem Map.empty) = None
   \<and> supabaseExecutor (WhatsAppAISystem Map.empty) = None
   \<and> sys_aiAgent (WhatsAppAISystem Map.empty) = None
   \<and> health (WhatsAppAISystem Map.empty) =
       JObj [(''status'', JStr ''healthy''), (''whatsapp'', JBool False),
             (''supabase'', JBool False), (''ai'', JBool False)]"
  using health_response [of "WhatsAppAISystem Map.empty"]
  by (simp add: WhatsAppAISystem_def)

lemma sublist_join: "x \<in> set xs \<Longrightarrow> sublist x (join sep xs)"
proof (induction sep xs rule: join.induct)
  case (1 sep)
  then show ?case by simp
next
  case (2 sep y)
  then show ?case by simp
next
  case (3 sep y z zs)
  show ?case
  proof (cases "x = y")
    case True
    then show ?thesis by (simp add: sublist_append_rightI)
  next
    case False
    with 3 have "sublist x (join sep (z # zs))" by simp
    then have "sublist x ((y @ sep) @ join sep (z # zs))" by (simp add: sublist_append)
    then show ?thesis by simp
  qed
qed

lemma initialize_missing_key:
  assumes "\<not> env_set (process_env d) ''SUPABASE_KEY''"
  shows "\<exists>msg. sublist ''SUPABASE_KEY'' msg \<and>
     WhatsAppAISystem_initialize d s =
       (Exit 1, s\<lparr>trace := trace s @ [ConsoleError init_error_label (JError msg), ProcessExit 1],
                  systemRunning := False\<rparr>)"
proof -
  let ?missing = "filter (\<lambda>v. \<not> env_set (process_env d) v) required"
  let ?msg = "missing_vars_prefix @ join '', '' ?missing"
  from assms have m: "''SUPABASE_KEY'' \<in> set ?missing" by (simp add: required_def)
  then have "sublist ''SUPABASE_KEY'' (join '', '' ?missing)" by (rule sublist_join)
  then have 1: "sublist ''SUPABASE_KEY'' ?msg" by (simp add: sublist_append)
  from m have "?missing \<noteq> []" by (metis empty_iff empty_set)
  then have "initialize_try d s = (Throw (JError ?msg), s)"
    by (simp add: initialize_try_def Let_def)
  then have "WhatsAppAISystem_initialize d s =
       (Exit 1, s\<lparr>trace := trace s @ [ConsoleError init_error_label (JError ?msg), ProcessExit 1],
                  systemRunning := False\<rparr>)"
    by (simp add: initialize_failure)
  with 1 show ?thesis by blast
qed

lemma shutdown_exits:
  "\<exists>s'. shutdown s = (Exit 0, s'\<lparr>trace := trace s' @ [ProcessExit 0]\<rparr>)"
proof -
  let ?body = "try_catch
          (io_bind get_sys (\<lambda>y.
             io_seq (case whatsappBot y of
                       None \<Rightarrow> ret ()
                     | Some b \<Rightarrow> on_bot WhatsAppBot_destroy)
                    (set_systemRunning False)))
          (\<lambda>error. ret ())"
  have "\<exists>s'. ?body s = (Ret (), s')"
  proof (cases "whatsappBot (sys s)")
    case None
    then show ?thesis by simp
  next
    case (Some b)
    obtain r s1 where d: "on_bot WhatsAppBot_destroy s = (r, s1)" by (cases "on_bot WhatsAppBot_destroy s")
    have ne: "\<forall>c. r \<noteq> Exit c"
      using d Some
      by (cases "client b"; cases "client_destroy (the (client b)) (trace s)")
         (auto simp: on_bot_def WhatsAppBot_destroy_def call_def io_bind_def io_seq_def split: prod.splits)
    show ?thesis
    proof (cases r)
      case (Ret x)
      with d Some show ?thesis by simp
    next
      case (Throw e)
      with d Some show ?thesis by (simp add: try_catch_def io_bind_def io_seq_def)
    next
      case (Exit c)
      with ne show ?thesis by simp
    qed
  qed
  then obtain s' where "?body s = (Ret (), s')" by blast
  then have "shutdown s = (Exit 0, s'\<lparr>trace := trace s' @ [ProcessExit 0]\<rparr>)"
    by (simp add: shutdown_def)
  then show ?thesis ..
qed

lemma required_set: "filter (\<lambda>v. \<not> env_set full_env v) required = []"
  by (simp add: required_def env_set_def full_env_def)

section \<open>Exit codes\<close>

text \<open>
  Claim C8. The process is to exit with code 0 on the guard's early exit and on shutdown, and
  with code 1 on every failure of \<^verbatim>\<open>initialize\<close>. The guard (\<open>main_guard\<close>), the shutdown
  (\<open>shutdown_exits\<close>), a missing \<^verbatim>\<open>SUPABASE_KEY\<close> (\<open>initialize_missing_key\<close>) and every failure
  that throws anything but \<^verbatim>\<open>undefined\<close> or \<^verbatim>\<open>null\<close> (\<open>initialize_failure\<close>) do as the claim says.
  When a start-up step is rejected with \<^verbatim>\<open>undefined\<close>, here the backend's connectivity check,
  the \<^verbatim>\<open>catch\<close> block reads \<^verbatim>\<open>error.stack\<close> of it for the log after the first report; the
  \<^verbatim>\<open>TypeError\<close> of that read leaves \<^verbatim>\<open>initialize\<close> before \<^verbatim>\<open>process.exit(1)\<close>, goes to
  \<^verbatim>\<open>.catch(console.error)\<close>, and the process does not exit: evaluated here.
\<close>

theorem startup_undefined_rejection:
  "fst (main broken_deps boot) = Ret ()
   \<and> trace (snd (main broken_deps boot)) =
       [NewResponseFormatter, NewSupabaseExecutor, NewMultiAgentSystem, TestConnection,
        ConsoleError init_error_label JUndefined, ConsoleError [] TypeError]
   \<and> systemRunning (snd (main broken_deps boot))"
  by (simp add: main_def boot_def WhatsAppAISystem_initialize_def initialize_try_def
      initialize_catch_run broken_deps_def good_deps_def required_set rejecting_executor_def
      try_catch_def io_bind_def io_seq_def call_def)

text \<open>The scenario of the specification: with \<^verbatim>\<open>SUPABASE_KEY\<close> unset the process reports the
  missing variable and exits with code 1.\<close>

lemma startup_missing_key:
  "main (good_deps\<lparr>process_env := full_env(''SUPABASE_KEY'' := None)\<rparr>) boot =
     (Exit 1,
      boot\<lparr>trace :=
             [ConsoleError init_error_label (JError (missing_vars_prefix @ ''SUPABASE_KEY'')),
              ProcessExit 1],
           systemRunning := False,
           sys := WhatsAppAISystem (full_env(''SUPABASE_KEY'' := None))\<rparr>)"
  by (simp add: main_def boot_def WhatsAppAISystem_initialize_def initialize_try_def
      initialize_catch_run good_deps_def required_def env_set_def full_env_def
      try_catch_def io_bind_def io_seq_def)

lemma full_env_defaults:
  "env_or full_env ''PORT'' ''8080'' = ''8080''"
  "env_or full_env ''WHATSAPP_SESSION_PATH'' ''./whatsapp-session'' = ''./whatsapp-session''"
  "env_or full_env ''WHATSAPP_CLIENT_ID'' ''whatsapp-ai-bot'' = ''whatsapp-ai-bot''"
  by (simp_all add: env_or_def full_env_def)

text \<open>A start in which every step succeeds: the listener is bound, the fallback timer is
  armed, and the health route reports the adapter as not yet ready.\<close>

lemma startup_succeeds:
  "fst (main good_deps boot) = Ret ()
   \<and> trace (snd (main good_deps boot)) =
       [NewResponseFormatter, NewSupabaseExecutor, NewMultiAgentSystem, TestConnection,
        NewLocalAuth ''whatsapp-ai-bot'' ''./whatsapp-session'',
        NewClient (session_options (WhatsAppBot full_env (Some hello_agent) (Some text_formatter))),
        ClientInitialize, AppListen ''8080'']
   \<and> systemRunning (snd (main good_deps boot))
   \<and> pending (snd (main good_deps boot)) = [(0, 45000)]
   \<and> health (sys (snd (main good_deps boot))) =
       JObj [(''status'', JStr ''healthy''), (''whatsapp'', JBool False),
             (''supabase'', JBool True), (''ai'', JBool True)]"
  by (simp add: main_def boot_def WhatsAppAISystem_initialize_def initialize_try_def
      good_deps_def required_set good_executor_def good_lib_returns good_lib_creates
      hello_agent_def on_bot_def initialize_run disarm_def WhatsAppBot_def WhatsAppAISystem_def
      full_env_defaults health_fields
      try_catch_def io_bind_def io_seq_def call_def)

end
